theory Spec2Isabelle
  imports Complex_Main "HOL-Library.Word"
begin

section \<open>Python exceptions\<close>

text \<open>
  Every exception the modelled functions can raise is a value of this type; a function
  that can raise returns \<open>error + 'a\<close> with \<open>Inl\<close> for the exception.
\<close>

datatype error =
    TypeError
  | KeyError
  | IndexError
  | ValueError
  | AttributeError
  | ZeroDivisionError
  | AssertionError
  | ActorError

section \<open>Insertion-ordered dictionaries\<close>

text \<open>
  A Python \<open>dict\<close> (and \<open>OrderedDict\<close>) iterates in insertion order, so it is an
  association list. Assigning to a key that is present replaces the value in place and keeps
  the key's position; assigning to a new key appends the entry.
\<close>

fun dict_set :: "('k \<times> 'v) list \<Rightarrow> 'k \<Rightarrow> 'v \<Rightarrow> ('k \<times> 'v) list" where
  "dict_set [] k v = [(k, v)]"
| "dict_set ((k', v') # kvs) k v =
     (if k' = k then (k, v) # kvs else (k', v') # dict_set kvs k v)"

fun dict_get :: "('k \<times> 'v) list \<Rightarrow> 'k \<Rightarrow> error + 'v" where
  "dict_get [] k = Inl KeyError"
| "dict_get ((k', v') # kvs) k = (if k' = k then Inr v' else dict_get kvs k)"

fun dict_del :: "('k \<times> 'v) list \<Rightarrow> 'k \<Rightarrow> error + ('k \<times> 'v) list" where
  "dict_del [] k = Inl KeyError"
| "dict_del ((k', v') # kvs) k =
     (if k' = k then Inr kvs
      else (case dict_del kvs k of Inl e \<Rightarrow> Inl e | Inr kvs' \<Rightarrow> Inr ((k', v') # kvs')))"

definition dict_keys :: "('k \<times> 'v) list \<Rightarrow> 'k list" where
  "dict_keys kvs = map fst kvs"

definition dict_values :: "('k \<times> 'v) list \<Rightarrow> 'v list" where
  "dict_values kvs = map snd kvs"

section \<open>flwr/common/record/typeddict.py\<close>

text \<open>
  \<open>TypedDict\<close> holds the dictionary \<open>_data\<close> and the two checking callables. A
  checking callable returns nothing when it accepts and raises when it rejects: it is a
  function to \<open>error option\<close>, \<open>Some e\<close> being the exception it raises.
\<close>

record ('k, 'v) typed_dict =
  td_data :: "('k \<times> 'v) list"
  td_check_key_fn :: "'k \<Rightarrow> error option"
  td_check_value_fn :: "'v \<Rightarrow> error option"

text \<open>
  \<open>__setitem__\<close>: the key check, then the value check, then the assignment. The result
  pairs what the call returns (or raises) with the dictionary afterwards.
\<close>

definition setitem ::
  "('k, 'v) typed_dict \<Rightarrow> 'k \<Rightarrow> 'v \<Rightarrow> (error + unit) \<times> ('k, 'v) typed_dict" where
  "setitem d key val =
     (case td_check_key_fn d key of
        Some e \<Rightarrow> (Inl e, d)
      | None \<Rightarrow>
         (case td_check_value_fn d val of
            Some e \<Rightarrow> (Inl e, d)
          | None \<Rightarrow> (Inr (), d\<lparr>td_data := dict_set (td_data d) key val\<rparr>)))"

definition check_nonempty_key :: "string \<Rightarrow> error option" where
  "check_nonempty_key k = (if k = [] then Some TypeError else None)"

definition check_nonneg_value :: "int \<Rightarrow> error option" where
  "check_nonneg_value v = (if v < 0 then Some TypeError else None)"

definition example_typed_dict :: "(string, int) typed_dict" where
  "example_typed_dict =
     \<lparr>td_data = [(''a'', 1)], td_check_key_fn = check_nonempty_key,
      td_check_value_fn = check_nonneg_value\<rparr>"

section \<open>flwr/common/recordset\_utils.py\<close>

type_synonym bytes = "8 word list"

text \<open>
  Modelled from the spec: the dataclasses \<open>Array\<close>, \<open>ParametersRecord\<close> and
  \<open>Parameters\<close> are declared outside the files at hand. An \<open>Array\<close> is a byte blob with
  the three descriptors dtype, shape and stype (the serialization-format tag); a
  \<open>ParametersRecord\<close> holds the ordered dictionary \<open>data\<close> from string keys to arrays;
  \<open>Parameters\<close> is a list of blobs with one common tensor-type tag. The type of a blob
  is a parameter \<open>'b\<close>; in the conversions of this file it is \<open>bytes\<close>.
\<close>

record array =
  dtype :: string
  shape :: "int list"
  stype :: string
  data :: bytes

record parameters_record =
  record_data :: "(string \<times> array) list"

record 'b parameters =
  tensors :: "'b list"
  tensor_type :: string

text \<open>
  Modelled from the spec: \<open>ParametersRecord.set_parameters\<close> is outside the files at hand;
  it adds every entry of the given ordered dictionary to the record's \<open>data\<close>.
\<close>

definition set_parameters :: "parameters_record \<Rightarrow> (string \<times> array) list \<Rightarrow> parameters_record" where
  "set_parameters r array_dict =
     r\<lparr>record_data := fold (\<lambda>(k, v) acc. dict_set acc k v) array_dict (record_data r)\<rparr>"

text \<open>
  The loop of \<open>parametersrecord_to_parameters\<close> over \<open>list(record.data.keys())\<close>: the
  blob of each entry is appended to \<open>parameters.tensors\<close>, and unless \<open>keep_input\<close>
  the entry is deleted from the record. The state is the pair of the \<open>Parameters\<close> being
  built and the record being drained.
\<close>

fun to_parameters_loop ::
  "string list \<Rightarrow> bool \<Rightarrow> bytes parameters \<times> parameters_record
     \<Rightarrow> error + (bytes parameters \<times> parameters_record)" where
  "to_parameters_loop [] keep_input s = Inr s"
| "to_parameters_loop (key # keys) keep_input (p, r) =
     (case dict_get (record_data r) key of
        Inl e \<Rightarrow> Inl e
      | Inr a \<Rightarrow>
         (let p' = p\<lparr>tensors := tensors p @ [data a]\<rparr>
          in if keep_input then to_parameters_loop keys keep_input (p', r)
             else (case dict_del (record_data r) key of
                     Inl e \<Rightarrow> Inl e
                   | Inr d' \<Rightarrow> to_parameters_loop keys keep_input (p', r\<lparr>record_data := d'\<rparr>))))"

definition parametersrecord_to_parameters ::
  "parameters_record \<Rightarrow> bool \<Rightarrow> error + (bytes parameters \<times> parameters_record)" where
  "parametersrecord_to_parameters record keep_input =
     to_parameters_loop (dict_keys (record_data record)) keep_input
       (\<lparr>tensors = [], tensor_type = []\<rparr>, record)"

text \<open>Python's \<open>str\<close> on a non-negative integer: its decimal digits.\<close>

definition digit_char :: "nat \<Rightarrow> char" where
  "digit_char d = char_of (48 + d)"

fun str_nat :: "nat \<Rightarrow> string" where
  "str_nat n = (if n < 10 then [digit_char n] else str_nat (n div 10) @ [digit_char (n mod 10)])"

text \<open>\<open>tensors[idx]\<close> and \<open>tensors.pop(0)\<close>, each with the list afterwards.\<close>

definition list_index :: "'a list \<Rightarrow> nat \<Rightarrow> error + ('a \<times> 'a list)" where
  "list_index xs i = (if i < length xs then Inr (xs ! i, xs) else Inl IndexError)"

definition list_pop0 :: "'a list \<Rightarrow> error + ('a \<times> 'a list)" where
  "list_pop0 xs = (case xs of [] \<Rightarrow> Inl IndexError | x # xs' \<Rightarrow> Inr (x, xs'))"

text \<open>
  The loop of \<open>parameters_to_parametersrecord\<close> over \<open>range(num_arrays)\<close>. The state is
  the list \<open>parameters.tensors\<close> (drained from the front unless \<open>keep_input\<close>) and the
  record being built.
\<close>

fun to_record_loop ::
  "nat list \<Rightarrow> bool \<Rightarrow> string \<Rightarrow> bytes list \<times> parameters_record
     \<Rightarrow> error + (bytes list \<times> parameters_record)" where
  "to_record_loop [] keep_input tt s = Inr s"
| "to_record_loop (idx # idxs) keep_input tt (ts, r) =
     (case (if keep_input then list_index ts idx else list_pop0 ts) of
        Inl e \<Rightarrow> Inl e
      | Inr (tensor, ts') \<Rightarrow>
          to_record_loop idxs keep_input tt
            (ts', set_parameters r
                    [(str_nat idx, \<lparr>dtype = [], shape = [], stype = tt, data = tensor\<rparr>)]))"

definition parameters_to_parametersrecord ::
  "bytes parameters \<Rightarrow> bool \<Rightarrow> error + (parameters_record \<times> bytes parameters)" where
  "parameters_to_parametersrecord ps keep_input =
     (case to_record_loop [0 ..< length (tensors ps)] keep_input (tensor_type ps)
             (tensors ps, \<lparr>record_data = []\<rparr>) of
        Inl e \<Rightarrow> Inl e
      | Inr (ts', r) \<Rightarrow> Inr (r, ps\<lparr>tensors := ts'\<rparr>))"

text \<open>The round trip: record to \<open>Parameters\<close> and back.\<close>

definition roundtrip :: "parameters_record \<Rightarrow> bool \<Rightarrow> bool \<Rightarrow> error + parameters_record" where
  "roundtrip record keep1 keep2 =
     (case parametersrecord_to_parameters record keep1 of
        Inl e \<Rightarrow> Inl e
      | Inr (ps, _) \<Rightarrow>
         (case parameters_to_parametersrecord ps keep2 of
            Inl e \<Rightarrow> Inl e
          | Inr (r, _) \<Rightarrow> Inr r))"

text \<open>
  What \<open>parameters_to_parametersrecord\<close> builds from the blobs \<open>ts\<close>, counting keys
  from \<open>i\<close>: used to state the result of its loop.
\<close>

definition indexed_arrays :: "string \<Rightarrow> nat \<Rightarrow> bytes list \<Rightarrow> (string \<times> array) list" where
  "indexed_arrays tt i ts =
     map (\<lambda>(j, t). (str_nat j, \<lparr>dtype = [], shape = [], stype = tt, data = t\<rparr>))
       (zip [i ..< i + length ts] ts)"

definition keys_below :: "nat \<Rightarrow> parameters_record \<Rightarrow> bool" where
  "keys_below i r = (\<forall>k \<in> set (map fst (record_data r)). \<exists>j < i. k = str_nat j)"

definition example_record :: parameters_record where
  "example_record =
     \<lparr>record_data =
        [(''w'', \<lparr>dtype = ''float32'', shape = [1], stype = ''numpy.ndarray'', data = [0, 0, 128, 63]\<rparr>),
         (''b'', \<lparr>dtype = ''int8'', shape = [2], stype = ''numpy.ndarray'', data = [7, 9]\<rparr>)]\<rparr>"

section \<open>flwr/server/strategy/dp\_strategy\_wrapper\_fixed\_clipping.py\<close>

text \<open>
  A NumPy array is its sequence of entries, one-dimensional, with real numbers for the
  floats; \<open>NDArrays\<close> is a list of arrays, one per layer.
\<close>

type_synonym ndarray = "real list"

text \<open>
  \<open>np.subtract(x, y)\<close> and \<open>x + y\<close> on one-dimensional arrays: entry by entry when the
  lengths agree, an array of length one is broadcast over the other, and anything else raises
  \<open>ValueError\<close> (operands could not be broadcast together).
\<close>

definition np_binop :: "(real \<Rightarrow> real \<Rightarrow> real) \<Rightarrow> ndarray \<Rightarrow> ndarray \<Rightarrow> error + ndarray" where
  "np_binop f x y =
     (if length x = length y then Inr (map2 f x y)
      else if length x = 1 then Inr (map (f (hd x)) y)
      else if length y = 1 then Inr (map (\<lambda>a. f a (hd y)) x)
      else Inl ValueError)"

definition np_subtract :: "ndarray \<Rightarrow> ndarray \<Rightarrow> error + ndarray" where
  "np_subtract = np_binop (-)"

definition np_add :: "ndarray \<Rightarrow> ndarray \<Rightarrow> error + ndarray" where
  "np_add = np_binop (+)"

text \<open>
  Modelled from the spec: \<open>get_norm\<close>, \<open>clip_inputs\<close> and \<open>compute_stdv\<close> of
  \<open>flwr.common.differential_privacy\<close> are outside the files at hand. \<open>clip_inputs\<close>
  scales every layer of an update by \<open>min(1, C / norm)\<close>, the norm being the L2 norm over
  all entries of all layers, and returns the scaled layers as a new list: the wrapper binds
  what it returns. \<open>compute_stdv\<close> is
  \<open>noise_multiplier * clipping_norm / num_sampled_clients\<close>.
\<close>

definition get_norm :: "ndarray list \<Rightarrow> real" where
  "get_norm input_arrays = sqrt (\<Sum>layer \<leftarrow> input_arrays. \<Sum>x \<leftarrow> layer. x * x)"

definition clip_inputs :: "ndarray list \<Rightarrow> real \<Rightarrow> ndarray list" where
  "clip_inputs input_arrays clipping_norm =
     (let input_norm = get_norm input_arrays;
          scaling_factor = (if input_norm = 0 then 1 else min 1 (clipping_norm / input_norm))
      in map (map (\<lambda>x. x * scaling_factor)) input_arrays)"

definition compute_stdv :: "real \<Rightarrow> real \<Rightarrow> int \<Rightarrow> error + real" where
  "compute_stdv noise_multiplier clipping_norm num_sampled_clients =
     (if num_sampled_clients = 0 then Inl ZeroDivisionError
      else Inr (noise_multiplier * clipping_norm / real_of_int num_sampled_clients))"

text \<open>
  Modelled from the spec: the serialization of arrays (\<open>ndarray_to_bytes\<close>,
  \<open>bytes_to_ndarray\<close>) and \<open>add_noise_to_params\<close> are outside the files at hand and are
  parameters of the model. \<open>add_noise_to_params\<close> takes the parameters and the standard
  deviation; the function given here stands for the generator's draw at that call.
\<close>

record 'b library =
  bytes_to_ndarray :: "'b \<Rightarrow> ndarray"
  ndarray_to_bytes :: "ndarray \<Rightarrow> 'b"
  add_noise_to_params :: "'b parameters \<Rightarrow> real \<Rightarrow> 'b parameters"

definition parameters_to_ndarrays :: "'b library \<Rightarrow> 'b parameters \<Rightarrow> ndarray list" where
  "parameters_to_ndarrays lib ps = map (bytes_to_ndarray lib) (tensors ps)"

definition ndarrays_to_parameters :: "'b library \<Rightarrow> ndarray list \<Rightarrow> 'b parameters" where
  "ndarrays_to_parameters lib nds =
     \<lparr>tensors = map (ndarray_to_bytes lib) nds, tensor_type = ''numpy.ndarray''\<rparr>"

text \<open>
  \<open>FitRes\<close> objects are mutable and shared with the caller, so they live in a store: a
  reference is a natural number, and \<open>results\<close> pairs each client proxy with the reference
  of its \<open>FitRes\<close>.
\<close>

datatype scalar = SBool bool | SBytes bytes | SFloat real | SInt int | SStr string

type_synonym metrics = "(string \<times> scalar) list"

type_synonym client_proxy = string

record 'b fit_res =
  parameters :: "'b parameters"
  num_examples :: int
  fit_metrics :: metrics

type_synonym 'b store = "nat \<Rightarrow> 'b fit_res"

type_synonym results = "(client_proxy \<times> nat) list"

type_synonym failures = "((client_proxy \<times> nat) + error) list"

text \<open>
  The inner strategy's \<open>aggregate_fit\<close> reads the round, the results, the failures and the
  store; it is taken to return without raising and without writing to the store. Every call
  the wrapper makes to it is recorded with its arguments.
\<close>

type_synonym 'b strategy =
  "int \<Rightarrow> results \<Rightarrow> failures \<Rightarrow> 'b store \<Rightarrow> 'b parameters option \<times> metrics"

record 'b inner_call =
  call_round :: int
  call_results :: results
  call_failures :: failures
  call_store :: "'b store"

record 'b dp_wrapper =
  strategy :: "'b strategy"
  noise_multiplier :: real
  clipping_norm :: real
  num_sampled_clients :: int
  current_round_params :: "ndarray list"

text \<open>\<open>__init__\<close>: the three validations, then the fields.\<close>

definition dp_init :: "'b strategy \<Rightarrow> real \<Rightarrow> real \<Rightarrow> int \<Rightarrow> error + 'b dp_wrapper" where
  "dp_init strat nm cn n =
     (if nm < 0 then Inl ValueError
      else if cn \<le> 0 then Inl ValueError
      else if n \<le> 0 then Inl ValueError
      else Inr \<lparr>strategy = strat, noise_multiplier = nm, clipping_norm = cn,
                num_sampled_clients = n, current_round_params = []\<rparr>)"

text \<open>Running a fallible step over a list, stopping at the first exception.\<close>

fun map_err :: "('a \<Rightarrow> error + 'c) \<Rightarrow> 'a list \<Rightarrow> error + 'c list" where
  "map_err f [] = Inr []"
| "map_err f (x # xs) =
     (case f x of
        Inl e \<Rightarrow> Inl e
      | Inr y \<Rightarrow> (case map_err f xs of Inl e \<Rightarrow> Inl e | Inr ys \<Rightarrow> Inr (y # ys)))"

text \<open>
  \<open>_compute_model_updates\<close>: for every client, the layers of \<open>zip(client_param,
  current_round_params)\<close> subtracted pairwise.
\<close>

definition compute_model_updates ::
  "'b dp_wrapper \<Rightarrow> ndarray list list \<Rightarrow> error + ndarray list list" where
  "compute_model_updates w all_clients_params =
     map_err (\<lambda>client_param.
                map_err (\<lambda>(x, y). np_subtract x y) (zip client_param (current_round_params w)))
       all_clients_params"

text \<open>
  The clipping loop \<open>for client_update in all_clients_updates: client_update =
  clip_inputs(client_update, self.clipping_norm)\<close>. Its state is the list object
  \<open>all_clients_updates\<close> and the loop variable \<open>client_update\<close>; each iteration binds
  the variable to the element and then to the clipped list, and assigns nothing to the list
  object.
\<close>

fun clip_loop ::
  "ndarray list list \<Rightarrow> real \<Rightarrow> ndarray list list \<times> ndarray list option
     \<Rightarrow> ndarray list list \<times> ndarray list option" where
  "clip_loop [] c s = s"
| "clip_loop (element # rest) c (all_clients_updates, client_update) =
     clip_loop rest c (all_clients_updates, Some (clip_inputs element c))"

text \<open>
  \<open>_update_clients_params\<close>: for every index \<open>i\<close> of \<open>current_round_params\<close>,
  \<open>client_param[i] = current_round_params[i] + client_update[i]\<close>. The right-hand side is
  evaluated first; reading \<open>client_update[i]\<close> and assigning \<open>client_param[i]\<close> out of
  range raise \<open>IndexError\<close>.
\<close>

fun update_clients_params_loop ::
  "ndarray list \<Rightarrow> nat list \<Rightarrow> ndarray list \<Rightarrow> ndarray list \<Rightarrow> error + ndarray list" where
  "update_clients_params_loop cur [] client_param client_update = Inr client_param"
| "update_clients_params_loop cur (i # rest) client_param client_update =
     (if length client_update \<le> i then Inl IndexError
      else (case np_add (cur ! i) (client_update ! i) of
              Inl e \<Rightarrow> Inl e
            | Inr s \<Rightarrow>
                if length client_param \<le> i then Inl IndexError
                else update_clients_params_loop cur rest (client_param[i := s]) client_update))"

definition update_clients_params ::
  "'b dp_wrapper \<Rightarrow> ndarray list \<Rightarrow> ndarray list \<Rightarrow> error + ndarray list" where
  "update_clients_params w client_param client_update =
     update_clients_params_loop (current_round_params w)
       [0 ..< length (current_round_params w)] client_param client_update"

text \<open>
  The first half of \<open>aggregate_fit\<close>, up to the parameters that are written back: decode
  every client's parameters, compute the updates, run the clipping loop, rebuild every
  client's parameters from the updates.
\<close>

definition sanitized_clients_params ::
  "'b library \<Rightarrow> 'b dp_wrapper \<Rightarrow> results \<Rightarrow> 'b store \<Rightarrow> error + ndarray list list" where
  "sanitized_clients_params lib w results st =
     (let clients_params =
            map (\<lambda>(_, ref). parameters_to_ndarrays lib (parameters (st ref))) results
      in case compute_model_updates w clients_params of
           Inl e \<Rightarrow> Inl e
         | Inr updates \<Rightarrow>
             (let all_clients_updates = fst (clip_loop updates (clipping_norm w) (updates, None))
              in map_err (\<lambda>(client_param, client_update).
                            update_clients_params w client_param client_update)
                   (zip clients_params all_clients_updates)))"

text \<open>
  \<open>for res, params in zip(results, clients_params): res[1].parameters =
  ndarrays_to_parameters(params)\<close>: the assignments to the \<open>FitRes\<close> objects, in order.
\<close>

fun write_back ::
  "'b library \<Rightarrow> (client_proxy \<times> nat) list \<Rightarrow> ndarray list list \<Rightarrow> 'b store \<Rightarrow> 'b store" where
  "write_back lib ((_, ref) # results) (params # clients_params) st =
     write_back lib results clients_params
       (st(ref := (st ref)\<lparr>parameters := ndarrays_to_parameters lib params\<rparr>))"
| "write_back lib _ _ st = st"

text \<open>
  What a call of \<open>aggregate_fit\<close> leaves behind: the pair it returns, the store afterwards,
  and the calls it made to the inner strategy.
\<close>

record 'b outcome =
  returned :: "'b parameters option \<times> metrics"
  store_after :: "'b store"
  delegated :: "'b inner_call list"

definition aggregate_fit ::
  "'b library \<Rightarrow> 'b dp_wrapper \<Rightarrow> int \<Rightarrow> results \<Rightarrow> failures \<Rightarrow> 'b store \<Rightarrow> error + 'b outcome" where
  "aggregate_fit lib w server_round results failures st =
     (if failures \<noteq> [] then Inr \<lparr>returned = (None, []), store_after = st, delegated = []\<rparr>
      else
        (case sanitized_clients_params lib w results st of
           Inl e \<Rightarrow> Inl e
         | Inr clients_params \<Rightarrow>
             (let st' = write_back lib results clients_params st;
                  call = \<lparr>call_round = server_round, call_results = results,
                          call_failures = failures, call_store = st'\<rparr>;
                  (aggregated_params, ms) = strategy w server_round results failures st'
              in case aggregated_params of
                   None \<Rightarrow> Inr \<lparr>returned = (None, ms), store_after = st', delegated = [call]\<rparr>
                 | Some ps \<Rightarrow>
                     (case compute_stdv (noise_multiplier w) (clipping_norm w)
                             (num_sampled_clients w) of
                        Inl e \<Rightarrow> Inl e
                      | Inr stdv \<Rightarrow>
                          Inr \<lparr>returned = (Some (add_noise_to_params lib ps stdv), ms),
                               store_after = st', delegated = [call]\<rparr>))))"

text \<open>
  The clients' parameters as the inner strategy finds them: for every recorded call, the
  decoded parameters of every result in the store of that call.
\<close>

definition handed_over :: "'b library \<Rightarrow> 'b outcome \<Rightarrow> ndarray list list list" where
  "handed_over lib out =
     map (\<lambda>c. map (\<lambda>(_, ref). parameters_to_ndarrays lib (parameters (call_store c ref)))
                (call_results c))
       (delegated out)"

text \<open>
  An example: arrays are their own blobs, no noise is drawn, and the inner strategy returns
  the parameters of the first result. The current parameters are \<open>[[0]]\<close>, the one client
  returns \<open>[[1]]\<close>, the clipping norm is one half.
\<close>

definition example_library :: "ndarray library" where
  "example_library =
     \<lparr>bytes_to_ndarray = (\<lambda>b. b), ndarray_to_bytes = (\<lambda>a. a),
      add_noise_to_params = (\<lambda>ps stdv. ps)\<rparr>"

definition first_result_strategy :: "ndarray strategy" where
  "first_result_strategy server_round results failures st =
     (case results of
        [] \<Rightarrow> (None, [])
      | (_, ref) # _ \<Rightarrow> (Some (parameters (st ref)), []))"

definition example_wrapper :: "ndarray dp_wrapper" where
  "example_wrapper =
     \<lparr>strategy = first_result_strategy, noise_multiplier = 0, clipping_norm = 1 / 2,
      num_sampled_clients = 1, current_round_params = [[0]]\<rparr>"

definition example_store :: "ndarray store" where
  "example_store ref =
     \<lparr>parameters = \<lparr>tensors = [[1]], tensor_type = ''client''\<rparr>,
      num_examples = 10, fit_metrics = []\<rparr>"

section \<open>flwr/server/superlink/fleet/vce/vce\_api.py\<close>

text \<open>
  Modelled from the spec: the protobuf messages \<open>Node\<close>, \<open>Task\<close>, \<open>TaskIns\<close> and
  \<open>TaskRes\<close> and the classes \<open>Metadata\<close> and \<open>Message\<close> are declared outside the
  files at hand. A task carries the producer and consumer nodes, the time to live, the ids
  of the tasks it answers, its type and the serialized record set; \<open>TaskIns\<close> and
  \<open>TaskRes\<close> wrap a task with the task, group and run ids. \<open>'p\<close> is the serialized
  record set and \<open>'rs\<close> the \<open>RecordSet\<close>. Fields of the task and its wrappers carry a
  prefix, since \<open>Metadata\<close> has fields of the same names.
\<close>

record node =
  nd_node_id :: int
  nd_anonymous :: bool

record 'p task =
  t_producer :: node
  t_consumer :: node
  t_ttl :: string
  t_ancestry :: "string list"
  t_task_type :: string
  t_recordset :: 'p

record 'p task_ins =
  ti_task_id :: string
  ti_group_id :: string
  ti_run_id :: int
  ti_task :: "'p task"

record 'p task_res =
  tr_task_id :: string
  tr_group_id :: string
  tr_run_id :: int
  tr_task :: "'p task"

record metadata =
  run_id :: int
  message_id :: string
  group_id :: string
  node_id :: int
  ttl :: string
  message_type :: string

record 'rs message =
  content :: 'rs
  metadata :: metadata

text \<open>
  \<open>taskins_to_message\<close>; the decoder \<open>recordset_from_proto\<close> of \<open>flwr.common.serde\<close>
  is its first argument.
\<close>

definition taskins_to_message :: "('p \<Rightarrow> 'rs) \<Rightarrow> 'p task_ins \<Rightarrow> int \<Rightarrow> 'rs message" where
  "taskins_to_message recordset_from_proto taskins datapartition_id =
     (let recordset = recordset_from_proto (t_recordset (ti_task taskins))
      in \<lparr>content = recordset,
          metadata = \<lparr>run_id = ti_run_id taskins,
                      message_id = ti_task_id taskins,
                      group_id = ti_group_id taskins,
                      node_id = datapartition_id,
                      ttl = t_ttl (ti_task taskins),
                      message_type = t_task_type (ti_task taskins)\<rparr>\<rparr>)"

text \<open>
  Modelled from the spec: \<open>NodeState\<close> (the node context registry) is outside the files at
  hand. It maps a run id to a record set; \<open>register_context\<close> creates an empty record set
  when the run has none, \<open>retrieve_context\<close> returns the one stored, \<open>update_context\<close>
  replaces it.
\<close>

type_synonym 'rs node_state = "(int \<times> 'rs) list"

definition register_context :: "'rs \<Rightarrow> 'rs node_state \<Rightarrow> int \<Rightarrow> 'rs node_state" where
  "register_context empty_recordset ns rid =
     (case dict_get ns rid of Inl _ \<Rightarrow> dict_set ns rid empty_recordset | Inr _ \<Rightarrow> ns)"

definition retrieve_context :: "'rs node_state \<Rightarrow> int \<Rightarrow> error + 'rs" where
  "retrieve_context ns rid = dict_get ns rid"

definition update_context :: "'rs node_state \<Rightarrow> int \<Rightarrow> 'rs \<Rightarrow> 'rs node_state" where
  "update_context ns rid ctx = dict_set ns rid ctx"

text \<open>
  Modelled from the spec: \<open>message_to_taskres\<close> and \<open>configure_task_res\<close> are outside the
  files at hand. The reply becomes a \<open>TaskRes\<close> that wraps the encoded record set of the
  reply, is stamped with the producing node, is addressed to the producer of the
  instruction, and refers to the instruction it answers.
\<close>

definition message_to_taskres :: "('rs \<Rightarrow> 'p) \<Rightarrow> 'rs message \<Rightarrow> 'p task_res" where
  "message_to_taskres recordset_to_proto m =
     \<lparr>tr_task_id = [], tr_group_id = [], tr_run_id = 0,
      tr_task = \<lparr>t_producer = \<lparr>nd_node_id = 0, nd_anonymous = False\<rparr>,
                 t_consumer = \<lparr>nd_node_id = 0, nd_anonymous = False\<rparr>,
                 t_ttl = ttl (metadata m), t_ancestry = [],
                 t_task_type = message_type (metadata m),
                 t_recordset = recordset_to_proto (content m)\<rparr>\<rparr>"

definition configure_task_res :: "'p task_res \<Rightarrow> 'p task_ins \<Rightarrow> node \<Rightarrow> 'p task_res" where
  "configure_task_res res ref_task_ins producer =
     \<lparr>tr_task_id = [], tr_group_id = ti_group_id ref_task_ins, tr_run_id = ti_run_id ref_task_ins,
      tr_task = (tr_task res)\<lparr>t_producer := producer,
                              t_consumer := t_producer (ti_task ref_task_ins),
                              t_ancestry := [ti_task_id ref_task_ins]\<rparr>\<rparr>"

text \<open>Python's \<open>str\<close> on an integer.\<close>

definition str_int :: "int \<Rightarrow> string" where
  "str_int i = (if i < 0 then CHR ''-'' # str_nat (nat (- i)) else str_nat (nat i))"

text \<open>
  What a worker is given. The actor pool is the flag that \<open>is_actor_available\<close> returns and
  the function \<open>actor_run\<close>: submitting the message, the client id and the context to a free
  actor and fetching the result, which is the reply with the updated context or the exception
  that the execution raised. The worker asserts that an actor is available before it submits,
  so the submission is taken and the future is not \<open>None\<close>.
\<close>

record ('p, 'rs) worker_env =
  recordset_from_proto :: "'p \<Rightarrow> 'rs"
  recordset_to_proto :: "'rs \<Rightarrow> 'p"
  empty_recordset :: 'rs
  nodes_mapping :: "(int \<times> int) list"
  is_actor_available :: bool
  actor_run :: "'rs message \<Rightarrow> string \<Rightarrow> 'rs \<Rightarrow> error + ('rs message \<times> 'rs)"

datatype log_entry = LogException error | LogTraceback error

text \<open>
  What a worker changes: the dictionary of node states (whose \<open>NodeState\<close> objects are
  updated in place), the task results in the state store, the error log, and the tuples it
  has submitted to the pool. The dictionaries \<open>nodes_mapping\<close> and \<open>node_states\<close>
  raise \<open>KeyError\<close> on a node id they do not hold.
\<close>

record ('p, 'rs) worker_state =
  node_states :: "(int \<times> 'rs node_state) list"
  task_res_store :: "'p task_res list"
  error_log :: "log_entry list"
  submitted :: "('rs message \<times> string \<times> 'rs) list"

text \<open>
  The body of the \<open>try\<close> block for one \<open>TaskIns\<close> taken from the queue. The result is the
  exception raised, if any, with the state at that moment.
\<close>

definition process_task ::
  "('p, 'rs) worker_env \<Rightarrow> ('p, 'rs) worker_state \<Rightarrow> 'p task_ins
     \<Rightarrow> error option \<times> ('p, 'rs) worker_state" where
  "process_task env ws task_ins =
     (if \<not> is_actor_available env then (Some AssertionError, ws)
      else
        (let nid = nd_node_id (t_consumer (ti_task task_ins))
         in case dict_get (node_states ws) nid of
              Inl e \<Rightarrow> (Some e, ws)
            | Inr ns \<Rightarrow>
               (let ns1 = register_context (empty_recordset env) ns (ti_run_id task_ins);
                    ws1 = ws\<lparr>node_states := dict_set (node_states ws) nid ns1\<rparr>
                in case retrieve_context ns1 (ti_run_id task_ins) of
                     Inl e \<Rightarrow> (Some e, ws1)
                   | Inr run_state \<Rightarrow>
                      (case dict_get (nodes_mapping env) nid of
                         Inl e \<Rightarrow> (Some e, ws1)
                       | Inr datapartition_id \<Rightarrow>
                          (let message = taskins_to_message (recordset_from_proto env) task_ins
                                           datapartition_id;
                               ws2 = ws1\<lparr>submitted :=
                                           submitted ws1 @ [(message, str_int nid, run_state)]\<rparr>
                           in case actor_run env message (str_int nid) run_state of
                                Inl e \<Rightarrow> (Some e, ws2)
                              | Inr (out_mssg, updated_context) \<Rightarrow>
                                 (let ns2 = update_context ns1 (ti_run_id task_ins) updated_context;
                                      task_res = configure_task_res
                                                   (message_to_taskres (recordset_to_proto env) out_mssg)
                                                   task_ins \<lparr>nd_node_id = nid, nd_anonymous = False\<rparr>
                                  in (None, ws2\<lparr>node_states := dict_set (node_states ws2) nid ns2,
                                                task_res_store := task_res_store ws2 @ [task_res]\<rparr>)))))))"

text \<open>
  The loop of \<open>worker\<close> over the instructions that arrive on the queue, in order. With no
  instruction left the worker is suspended in \<open>queue.get()\<close>; an exception in the body is
  logged twice (the exception and the traceback) and followed by \<open>break\<close>. The result is how
  the run ends, the instructions not taken from the queue, and the state.
\<close>

datatype worker_end = Waiting | Exited

fun worker ::
  "('p, 'rs) worker_env \<Rightarrow> 'p task_ins list \<Rightarrow> ('p, 'rs) worker_state
     \<Rightarrow> worker_end \<times> 'p task_ins list \<times> ('p, 'rs) worker_state" where
  "worker env [] ws = (Waiting, [], ws)"
| "worker env (task_ins # queue) ws =
     (case process_task env ws task_ins of
        (None, ws') \<Rightarrow> worker env queue ws'
      | (Some ex, ws') \<Rightarrow>
          (Exited, queue, ws'\<lparr>error_log := error_log ws' @ [LogException ex, LogTraceback ex]\<rparr>))"

text \<open>
  An example: record sets are strings, the actor raises on a fit message and echoes any other
  message, and two nodes 7 and 8 are mapped to the partitions 0 and 1.
\<close>

definition example_env :: "(string, string) worker_env" where
  "example_env =
     \<lparr>recordset_from_proto = (\<lambda>p. p), recordset_to_proto = (\<lambda>r. r), empty_recordset = [],
      nodes_mapping = [(7, 0), (8, 1)],
      is_actor_available = True,
      actor_run = (\<lambda>m cid ctx. if message_type (metadata m) = ''fit'' then Inl ActorError
                                else Inr (m, ctx))\<rparr>"

definition example_task_ins :: "string \<Rightarrow> int \<Rightarrow> string \<Rightarrow> string task_ins" where
  "example_task_ins tid nid ty =
     \<lparr>ti_task_id = tid, ti_group_id = ''1'', ti_run_id = 5,
      ti_task = \<lparr>t_producer = \<lparr>nd_node_id = 0, nd_anonymous = True\<rparr>,
                 t_consumer = \<lparr>nd_node_id = nid, nd_anonymous = False\<rparr>,
                 t_ttl = ''60'', t_ancestry = [], t_task_type = ty, t_recordset = ''payload''\<rparr>\<rparr>"

definition example_queue :: "string task_ins list" where
  "example_queue = [example_task_ins ''a'' 7 ''fit'', example_task_ins ''b'' 8 ''evaluate'']"

definition example_worker_state :: "(string, string) worker_state" where
  "example_worker_state =
     \<lparr>node_states = [(7, []), (8, [])], task_res_store = [], error_log = [], submitted = []\<rparr>"

section \<open>flwr\_datasets/partitioner/dirichlet\_partitioner.py\<close>

text \<open>
  The dataset is the column \<open>partition_by\<close>: a list of labels, one per row, a row being
  known by its index. \<open>dataset.unique\<close> keeps the first occurrence of every label, and
  \<open>np.nonzero(targets == k)[0]\<close> lists the rows that carry the label \<open>k\<close>.
\<close>

definition unique :: "'l list \<Rightarrow> 'l list" where
  "unique xs = rev (remdups (rev xs))"

definition class_indices :: "'l list \<Rightarrow> 'l \<Rightarrow> nat list" where
  "class_indices targets k = filter (\<lambda>i. targets ! i = k) [0 ..< length targets]"

text \<open>
  NumPy's global generator. Its state is the sequence of samples it will return from now on:
  the \<open>n\<close>-th coming call of \<open>np.random.dirichlet\<close>, made with the argument
  \<open>alpha\<close>, returns \<open>g n alpha\<close>. A call returns the first sample and leaves the rest.
\<close>

type_synonym rng = "nat \<Rightarrow> real list \<Rightarrow> real list"

definition dirichlet :: "rng \<Rightarrow> real list \<Rightarrow> real list \<times> rng" where
  "dirichlet g alpha = (g 0 alpha, \<lambda>n. g (Suc n))"

text \<open>
  \<open>np.cumsum\<close>, \<open>astype(int)\<close> (truncation towards zero), Python's slice \<open>xs[a:b]\<close>
  and \<open>np.split(xs, points)\<close>, which cuts \<open>xs\<close> into the slices between neighbouring
  points of \<open>[0] + points + [len(xs)]\<close>.
\<close>

fun cumsum_from :: "real \<Rightarrow> real list \<Rightarrow> real list" where
  "cumsum_from acc [] = []"
| "cumsum_from acc (x # xs) = (acc + x) # cumsum_from (acc + x) xs"

definition cumsum :: "real list \<Rightarrow> real list" where
  "cumsum xs = cumsum_from 0 xs"

definition astype_int :: "real \<Rightarrow> int" where
  "astype_int x = (if 0 \<le> x then \<lfloor>x\<rfloor> else \<lceil>x\<rceil>)"

definition slice_bound :: "nat \<Rightarrow> int \<Rightarrow> nat" where
  "slice_bound len i = (if i < 0 then nat (max 0 (int len + i)) else min (nat i) len)"

definition py_slice :: "'a list \<Rightarrow> int \<Rightarrow> int \<Rightarrow> 'a list" where
  "py_slice xs a b =
     (let na = slice_bound (length xs) a; nb = slice_bound (length xs) b
      in take (nb - na) (drop na xs))"

definition np_split :: "'a list \<Rightarrow> int list \<Rightarrow> 'a list list" where
  "np_split xs points =
     (let div_points = 0 # points @ [int (length xs)]
      in map (\<lambda>i. py_slice xs (div_points ! i) (div_points ! Suc i)) [0 ..< Suc (length points)])"

text \<open>
  The partitioner object: the attributes set by \<open>__init__\<close>, the dataset bound to it, and
  the attributes written by \<open>_determine_node_id_to_indices_if_needed\<close>. The argument
  \<open>alpha\<close> is a float or a list of floats.
\<close>

datatype alpha_arg = AlphaFloat real | AlphaList "real list"

record 'l partitioner =
  num_partitions :: int
  alpha :: "real list"
  partition_by :: string
  min_partition_size :: int
  self_balancing :: bool
  shuffle :: bool
  seed :: int
  dataset :: "'l list"
  unique_classes :: "'l list"
  num_unique_classes :: "nat option"
  avg_num_of_samples_per_node :: real
  node_id_to_indices :: "(int \<times> nat list) list"
  node_id_to_indices_determined :: bool

text \<open>
  \<open>_initialize_alpha\<close>: a float is repeated \<open>num_partitions\<close> times (\<open>repeat\<close> raises
  \<open>ValueError\<close> on a negative count), a list is returned as it is.
\<close>

definition initialize_alpha :: "int \<Rightarrow> alpha_arg \<Rightarrow> error + real list" where
  "initialize_alpha n a =
     (case a of
        AlphaFloat x \<Rightarrow> if n < 0 then Inl ValueError else Inr (replicate (nat n) x)
      | AlphaList xs \<Rightarrow> Inr xs)"

text \<open>
  \<open>__init__\<close>, followed by the binding of the dataset. \<open>seed\<close> and \<open>shuffle\<close> are
  stored.
\<close>

definition partitioner_init ::
  "int \<Rightarrow> alpha_arg \<Rightarrow> string \<Rightarrow> int option \<Rightarrow> bool \<Rightarrow> bool \<Rightarrow> int \<Rightarrow> 'l list
     \<Rightarrow> error + 'l partitioner" where
  "partitioner_init n a by_column min_size balancing shuffling sd ds =
     (case initialize_alpha n a of
        Inl e \<Rightarrow> Inl e
      | Inr al \<Rightarrow>
          Inr \<lparr>num_partitions = n, alpha = al, partition_by = by_column,
               min_partition_size = (case min_size of None \<Rightarrow> 0 | Some m \<Rightarrow> m),
               self_balancing = balancing, shuffle = shuffling, seed = sd, dataset = ds,
               unique_classes = [], num_unique_classes = None,
               avg_num_of_samples_per_node = 0,
               node_id_to_indices = [], node_id_to_indices_determined = False\<rparr>)"

text \<open>
  \<open>nid_to_proportion_of_k_samples\<close>: for every partition index the entry of the sample
  at that index; an index beyond the sample raises \<open>IndexError\<close>.
\<close>

fun proportions_dict :: "int list \<Rightarrow> real list \<Rightarrow> error + (int \<times> real) list" where
  "proportions_dict [] props = Inr []"
| "proportions_dict (nid # nids) props =
     (if nid < 0 \<or> int (length props) \<le> nid then Inl IndexError
      else (case proportions_dict nids props of
              Inl e \<Rightarrow> Inl e
            | Inr d \<Rightarrow> Inr ((nid, props ! nat nid) # d)))"

text \<open>
  The balancing branch: the proportion of every partition that already holds more than the
  average number of rows is set to zero; then \<open>nid_to_proportion_of_k_samples.values().sum()\<close>
  is evaluated, and a dictionary view has no attribute \<open>sum\<close>, so the branch raises
  \<open>AttributeError\<close> before it normalizes anything.
\<close>

definition balance ::
  "(int \<times> nat list) list \<Rightarrow> real \<Rightarrow> (int \<times> real) list \<Rightarrow> error + (int \<times> real) list" where
  "balance n2i avg nid_to_prop =
     (let zeroed = map (\<lambda>(nid, proportion).
                          (nid, case dict_get n2i nid of
                                  Inr indices \<Rightarrow> if avg < real (length indices) then 0 else proportion
                                | Inl _ \<Rightarrow> proportion))
                     nid_to_prop
      in Inl AttributeError)"

text \<open>
  \<open>for nid in node_id_to_indices: node_id_to_indices[nid].extend(split_indices[nid])\<close>.
\<close>

fun extend_all ::
  "(int \<times> nat list) list \<Rightarrow> nat list list \<Rightarrow> error + (int \<times> nat list) list" where
  "extend_all [] pieces = Inr []"
| "extend_all ((nid, indices) # rest) pieces =
     (if nid < 0 \<or> int (length pieces) \<le> nid then Inl IndexError
      else (case extend_all rest pieces of
              Inl e \<Rightarrow> Inl e
            | Inr rest' \<Rightarrow> Inr ((nid, indices @ pieces ! nat nid) # rest')))"

text \<open>
  The loop over the unique classes inside one sampling attempt. The state is the assignment
  built so far and the generator.
\<close>

fun classes_loop ::
  "'l partitioner \<Rightarrow> 'l list \<Rightarrow> (int \<times> nat list) list \<times> rng
     \<Rightarrow> error + ((int \<times> nat list) list \<times> rng)" where
  "classes_loop p [] s = Inr s"
| "classes_loop p (k # ks) (n2i, g) =
     (let indices_representing_class_k = class_indices (dataset p) k;
          (class_k_division_proportions, g') = dirichlet g (alpha p)
      in case proportions_dict (map int [0 ..< nat (num_partitions p)])
                class_k_division_proportions of
           Inl e \<Rightarrow> Inl e
         | Inr nid_to_prop \<Rightarrow>
            (case (if self_balancing p
                   then balance n2i (avg_num_of_samples_per_node p) nid_to_prop
                   else Inr nid_to_prop) of
               Inl e \<Rightarrow> Inl e
             | Inr nid_to_prop' \<Rightarrow>
                (let cumsum_division_fractions = cumsum (dict_values nid_to_prop');
                     cumsum_division_numbers =
                       map (\<lambda>f. f * real (length indices_representing_class_k))
                         cumsum_division_fractions;
                     indices_on_which_split = butlast (map astype_int cumsum_division_numbers);
                     split_indices = np_split indices_representing_class_k indices_on_which_split
                 in case extend_all n2i split_indices of
                      Inl e \<Rightarrow> Inl e
                    | Inr n2i' \<Rightarrow> classes_loop p ks (n2i', g'))))"

text \<open>
  The \<open>while True\<close> loop: a fresh empty assignment, the loop over the classes, and the test
  of the smallest partition against \<open>min_partition_size\<close> (\<open>min\<close> of no partition raises
  \<open>ValueError\<close>). The loop has no bound in the code; here it has fuel, and \<open>None\<close> says
  that the fuel ran out before the loop was left.
\<close>

fun sampling_loop ::
  "nat \<Rightarrow> 'l partitioner \<Rightarrow> rng \<Rightarrow> (error + ((int \<times> nat list) list \<times> rng)) option" where
  "sampling_loop 0 p g = None"
| "sampling_loop (Suc fuel) p g =
     (case classes_loop p (unique_classes p)
             (map (\<lambda>nid. (int nid, [])) [0 ..< nat (num_partitions p)], g) of
        Inl e \<Rightarrow> Some (Inl e)
      | Inr (n2i, g') \<Rightarrow>
          if n2i = [] then Some (Inl ValueError)
          else if min_partition_size p \<le> int (Min (set (map length (dict_values n2i))))
          then Some (Inr (n2i, g'))
          else sampling_loop fuel p g')"

text \<open>
  \<open>_determine_node_id_to_indices_if_needed\<close>. The test of
  \<open>_node_id_to_indices_determined\<close> guards \<open>pass\<close> only, so everything below runs on
  every call; the division by \<open>num_partitions\<close> raises on zero; the closing loop assigns
  every entry to itself.
\<close>

definition determine_node_id_to_indices_if_needed ::
  "nat \<Rightarrow> 'l partitioner \<Rightarrow> rng \<Rightarrow> (error + ('l partitioner \<times> rng)) option" where
  "determine_node_id_to_indices_if_needed fuel p g =
     (let p1 = p\<lparr>unique_classes := unique (dataset p)\<rparr>;
          p2 = p1\<lparr>num_unique_classes := Some (length (unique_classes p1))\<rparr>
      in if num_partitions p2 = 0 then Some (Inl ZeroDivisionError)
         else
           (let p3 = p2\<lparr>avg_num_of_samples_per_node :=
                          real (length (dataset p2)) / real_of_int (num_partitions p2)\<rparr>
            in case sampling_loop fuel p3 g of
                 None \<Rightarrow> None
               | Some (Inl e) \<Rightarrow> Some (Inl e)
               | Some (Inr (n2i, g')) \<Rightarrow>
                   Some (Inr (p3\<lparr>node_id_to_indices := n2i,
                                  node_id_to_indices_determined := True\<rparr>, g'))))"

text \<open>\<open>dataset.select(indices)\<close>: the rows at the indices, in that order.\<close>

definition select :: "'l list \<Rightarrow> nat list \<Rightarrow> error + 'l list" where
  "select ds indices =
     (if list_all (\<lambda>i. i < length ds) indices then Inr (map (\<lambda>i. ds ! i) indices)
      else Inl IndexError)"

text \<open>
  \<open>load_partition\<close>: the rows of the partition, the partitioner afterwards and the
  generator afterwards.
\<close>

definition load_partition ::
  "nat \<Rightarrow> 'l partitioner \<Rightarrow> rng \<Rightarrow> int
     \<Rightarrow> (error + ('l list \<times> 'l partitioner \<times> rng)) option" where
  "load_partition fuel p g nid =
     (case determine_node_id_to_indices_if_needed fuel p g of
        None \<Rightarrow> None
      | Some (Inl e) \<Rightarrow> Some (Inl e)
      | Some (Inr (p', g')) \<Rightarrow>
          (case dict_get (node_id_to_indices p') nid of
             Inl e \<Rightarrow> Some (Inl e)
           | Inr indices \<Rightarrow>
               (case select (dataset p') indices of
                  Inl e \<Rightarrow> Some (Inl e)
                | Inr rows \<Rightarrow> Some (Inr (rows, p', g')))))"

text \<open>
  The assignment that a call of \<open>load_partition\<close> leaves in the partitioner, and the
  generator it leaves behind.
\<close>

definition assignment_after ::
  "(error + ('l list \<times> 'l partitioner \<times> rng)) option \<Rightarrow> (int \<times> nat list) list option" where
  "assignment_after r =
     (case r of Some (Inr (_, p', _)) \<Rightarrow> Some (node_id_to_indices p') | _ \<Rightarrow> None)"

definition rng_after :: "(error + ('l list \<times> 'l partitioner \<times> rng)) option \<Rightarrow> rng \<Rightarrow> rng" where
  "rng_after r g = (case r of Some (Inr (_, _, g')) \<Rightarrow> g' | _ \<Rightarrow> g)"

definition partitioner_after ::
  "(error + ('l list \<times> 'l partitioner \<times> rng)) option \<Rightarrow> 'l partitioner \<Rightarrow> 'l partitioner" where
  "partitioner_after r p = (case r of Some (Inr (_, p', _)) \<Rightarrow> p' | _ \<Rightarrow> p)"

text \<open>
  An example: two rows with the same label, two partitions, no balancing, seed 42, and a
  generator whose samples alternate between \<open>[1, 0]\<close> and \<open>[0, 1]\<close>.
\<close>

definition example_partitioner :: "string partitioner" where
  "example_partitioner =
     \<lparr>num_partitions = 2, alpha = [1 / 2, 1 / 2], partition_by = ''labels'',
      min_partition_size = 0, self_balancing = False, shuffle = True, seed = 42,
      dataset = [''cat'', ''cat''],
      unique_classes = [], num_unique_classes = None, avg_num_of_samples_per_node = 0,
      node_id_to_indices = [], node_id_to_indices_determined = False\<rparr>"

definition example_rng :: rng where
  "example_rng n al = (if even n then [1, 0] else [0, 1])"

text \<open>
  Two calls of \<open>load_partition(0)\<close> on the example partitioner, one after the other, and
  a call on a second partitioner built with the same arguments, made after the first call of
  the first one.
\<close>

definition example_first_call :: "(error + (string list \<times> string partitioner \<times> rng)) option" where
  "example_first_call = load_partition 1 example_partitioner example_rng 0"

definition example_second_call :: "(error + (string list \<times> string partitioner \<times> rng)) option" where
  "example_second_call =
     load_partition 1 (partitioner_after example_first_call example_partitioner)
       (rng_after example_first_call example_rng) 0"

definition example_twin_call :: "(error + (string list \<times> string partitioner \<times> rng)) option" where
  "example_twin_call =
     load_partition 1 example_partitioner (rng_after example_first_call example_rng) 0"

section \<open>Typed records reject without mutating\<close>

text \<open>
  Claim C8. When the key check or the value check of a typed dictionary rejects, the
  assignment \<open>R[k] = v\<close> raises the exception of the rejecting check (the key check
  comes first), and the dictionary is the same afterwards: no entry is added or changed.
\<close>

theorem setitem_rejected_unchanged:
  assumes "td_check_key_fn R k \<noteq> None \<or> td_check_value_fn R v \<noteq> None"
  shows "\<exists>e. setitem R k v = (Inl e, R)
           \<and> (td_check_key_fn R k = Some e
               \<or> (td_check_key_fn R k = None \<and> td_check_value_fn R v = Some e))"
  using assms by (auto simp: setitem_def split: option.splits)

theorem setitem_rejected_unchanged_witness:
  "td_check_value_fn example_typed_dict (- 1) \<noteq> None
   \<and> setitem example_typed_dict ''b'' (- 1) = (Inl TypeError, example_typed_dict)"
  using setitem_rejected_unchanged [of example_typed_dict "''b''" "- 1"]
  by (simp add: example_typed_dict_def check_nonneg_value_def check_nonempty_key_def)

section \<open>Conversions between ParametersRecord and Parameters\<close>


declare str_nat.simps [simp del]

lemma dict_get_distinct:
  "distinct (map fst d) \<Longrightarrow> (k, v) \<in> set d \<Longrightarrow> dict_get d k = Inr v"
  by (induction d) (auto simp: rev_image_eqI)

lemma dict_set_fresh:
  "k \<notin> set (map fst kvs) \<Longrightarrow> dict_set kvs k v = kvs @ [(k, v)]"
  by (induction kvs) auto

lemma to_parameters_loop_drain:
  "to_parameters_loop (map fst kvs) False (p, r\<lparr>record_data := kvs\<rparr>)
     = Inr (p\<lparr>tensors := tensors p @ map (data \<circ> snd) kvs\<rparr>, r\<lparr>record_data := []\<rparr>)"
  by (induction kvs arbitrary: p) auto

lemma to_parameters_loop_keep:
  "distinct (map fst (record_data r)) \<Longrightarrow> set kvs \<subseteq> set (record_data r) \<Longrightarrow>
   to_parameters_loop (map fst kvs) True (p, r)
     = Inr (p\<lparr>tensors := tensors p @ map (data \<circ> snd) kvs\<rparr>, r)"
proof (induction kvs arbitrary: p)
  case Nil
  then show ?case by simp
next
  case (Cons kv kvs)
  obtain k v where kv: "kv = (k, v)" by (cases kv)
  with Cons.prems have "dict_get (record_data r) k = Inr v"
    by (simp add: dict_get_distinct)
  with Cons kv show ?case by simp
qed

lemma parametersrecord_to_parameters_result:
  assumes "distinct (dict_keys (record_data P))"
  shows "parametersrecord_to_parameters P keep_input
           = Inr (\<lparr>tensors = map data (dict_values (record_data P)), tensor_type = []\<rparr>,
                  if keep_input then P else P\<lparr>record_data := []\<rparr>)"
proof (cases keep_input)
  case True
  with assms to_parameters_loop_keep [of P "record_data P" "\<lparr>tensors = [], tensor_type = []\<rparr>"]
  show ?thesis
    by (simp add: parametersrecord_to_parameters_def dict_keys_def dict_values_def)
next
  case False
  with to_parameters_loop_drain [of "record_data P" "\<lparr>tensors = [], tensor_type = []\<rparr>" P]
  show ?thesis
    by (simp add: parametersrecord_to_parameters_def dict_keys_def dict_values_def)
qed

lemma digit_char_inj: "a < 10 \<Longrightarrow> b < 10 \<Longrightarrow> digit_char a = digit_char b \<Longrightarrow> a = b"
proof -
  assume a: "a < 10" and b: "b < 10" and eq: "digit_char a = digit_char b"
  from eq have "(of_char (char_of (48 + a) :: char) :: nat) = of_char (char_of (48 + b) :: char)"
    by (simp add: digit_char_def)
  with a b show "a = b" by simp
qed

lemma str_nat_nonempty: "str_nat n \<noteq> []"
  by (subst str_nat.simps) simp

lemma str_nat_inj: "str_nat m = str_nat n \<Longrightarrow> m = n"
proof (induction m arbitrary: n rule: str_nat.induct)
  case (1 m)
  show ?case
  proof (cases "m < 10")
    case m: True
    show ?thesis
    proof (cases "n < 10")
      case True
      with m "1.prems" show ?thesis
        by (simp add: str_nat.simps [of m] str_nat.simps [of n] digit_char_inj)
    next
      case False
      with m "1.prems" str_nat_nonempty [of "n div 10"] show ?thesis
        by (simp add: str_nat.simps [of m] str_nat.simps [of n])
    qed
  next
    case m: False
    show ?thesis
    proof (cases "n < 10")
      case True
      with m "1.prems" str_nat_nonempty [of "m div 10"] show ?thesis
        by (simp add: str_nat.simps [of m] str_nat.simps [of n])
    next
      case False
      with m "1.prems" have eq: "str_nat (m div 10) = str_nat (n div 10)"
        and dg: "digit_char (m mod 10) = digit_char (n mod 10)"
        by (simp_all add: str_nat.simps [of m] str_nat.simps [of n])
      from "1.IH" [OF m eq] have d: "m div 10 = n div 10" .
      from dg have "m mod 10 = n mod 10" by (simp add: digit_char_inj)
      with d show ?thesis by (metis div_mult_mod_eq)
    qed
  qed
qed


lemma str_nat_small: "str_nat 0 = ''0''" "str_nat (Suc 0) = ''1''" "str_nat 2 = ''2''"
  by code_simp+

lemma upt_add_Suc: "[i ..< i + Suc n] = i # [Suc i ..< Suc i + n]"
  by (simp add: upt_conv_Cons del: upt_Suc)

lemma indexed_arrays_Nil: "indexed_arrays tt i [] = []"
  by (simp add: indexed_arrays_def)

lemma indexed_arrays_Cons:
  "indexed_arrays tt i (t # ts)
     = (str_nat i, \<lparr>dtype = [], shape = [], stype = tt, data = t\<rparr>) # indexed_arrays tt (Suc i) ts"
  using upt_add_Suc [of i "length ts"] by (simp add: indexed_arrays_def del: upt_Suc)

lemma set_parameters_fresh:
  assumes "keys_below i r"
  shows "set_parameters r [(str_nat i, a)] = r\<lparr>record_data := record_data r @ [(str_nat i, a)]\<rparr>"
    and "keys_below (Suc i) (set_parameters r [(str_nat i, a)])"
proof -
  have "str_nat i \<notin> set (map fst (record_data r))"
    using assms str_nat_inj unfolding keys_below_def by fastforce
  then show eq: "set_parameters r [(str_nat i, a)] = r\<lparr>record_data := record_data r @ [(str_nat i, a)]\<rparr>"
    by (simp add: set_parameters_def dict_set_fresh)
  show "keys_below (Suc i) (set_parameters r [(str_nat i, a)])"
    using assms unfolding eq keys_below_def by (auto intro: less_SucI)
qed

lemma to_record_loop_drain:
  "keys_below i r \<Longrightarrow>
   to_record_loop [i ..< i + length ts] False tt (ts, r)
     = Inr ([], r\<lparr>record_data := record_data r @ indexed_arrays tt i ts\<rparr>)"
proof (induction ts arbitrary: i r)
  case Nil
  then show ?case by (simp add: indexed_arrays_Nil)
next
  case (Cons t ts)
  let ?a = "\<lparr>dtype = [], shape = [], stype = tt, data = t\<rparr>"
  have up: "[i ..< i + length (t # ts)] = i # [Suc i ..< Suc i + length ts]"
    using upt_add_Suc [of i "length ts"] by simp
  from Cons.IH [OF set_parameters_fresh(2) [OF Cons.prems, of ?a]]
  show ?case
    unfolding up
    by (simp add: list_pop0_def set_parameters_fresh(1) [OF Cons.prems] indexed_arrays_Cons)
qed

lemma to_record_loop_keep:
  "keys_below (length pre) r \<Longrightarrow>
   to_record_loop [length pre ..< length pre + length suf] True tt (pre @ suf, r)
     = Inr (pre @ suf, r\<lparr>record_data := record_data r @ indexed_arrays tt (length pre) suf\<rparr>)"
proof (induction suf arbitrary: pre r)
  case Nil
  then show ?case by (simp add: indexed_arrays_Nil)
next
  case (Cons t suf)
  let ?a = "\<lparr>dtype = [], shape = [], stype = tt, data = t\<rparr>"
  have up: "[length pre ..< length pre + length (t # suf)]
            = length pre # [length (pre @ [t]) ..< length (pre @ [t]) + length suf]"
    using upt_add_Suc [of "length pre" "length suf"] by simp
  have kb: "keys_below (length (pre @ [t])) (set_parameters r [(str_nat (length pre), ?a)])"
    using set_parameters_fresh(2) [OF Cons.prems, of ?a] by simp
  from Cons.IH [OF kb]
  show ?case
    unfolding up
    by (simp add: list_index_def set_parameters_fresh(1) [OF Cons.prems] indexed_arrays_Cons)
qed

lemma parameters_to_parametersrecord_result:
  "parameters_to_parametersrecord ps keep_input
     = Inr (\<lparr>record_data = indexed_arrays (tensor_type ps) 0 (tensors ps)\<rparr>,
            if keep_input then ps else ps\<lparr>tensors := []\<rparr>)"
proof (cases keep_input)
  case True
  have "keys_below (length ([] :: bytes list)) \<lparr>record_data = []\<rparr>"
    by (simp add: keys_below_def)
  from to_record_loop_keep [OF this, of "tensors ps" "tensor_type ps"] True
  show ?thesis by (simp add: parameters_to_parametersrecord_def)
next
  case False
  have "keys_below 0 \<lparr>record_data = []\<rparr>"
    by (simp add: keys_below_def)
  from to_record_loop_drain [OF this, of "tensors ps" "tensor_type ps"] False
  show ?thesis by (simp add: parameters_to_parametersrecord_def)
qed

lemma indexed_arrays_values:
  "map data (dict_values (indexed_arrays tt i ts)) = ts"
  "dict_keys (indexed_arrays tt i ts) = map str_nat [i ..< i + length ts]"
  "\<forall>a \<in> set (dict_values (indexed_arrays tt i ts)). dtype a = [] \<and> shape a = [] \<and> stype a = tt"
  by (induction ts arbitrary: i)
     (simp_all add: indexed_arrays_Nil indexed_arrays_Cons dict_values_def dict_keys_def
        upt_conv_Cons del: upt_Suc)

text \<open>
  Claim C5, as amended. For every ParametersRecord \<open>P\<close> (a dictionary, so its keys are
  distinct) and both settings of each \<open>keep_input\<close>, converting \<open>P\<close> to Parameters
  and back succeeds and gives a record whose values, in insertion order, carry the same byte
  blobs as the values of \<open>P\<close>. The keys become the decimal indices, and dtype, shape and
  also stype of every array are empty afterwards.
\<close>

theorem roundtrip_preserves_blobs:
  assumes "distinct (dict_keys (record_data P))"
  shows "\<exists>R. roundtrip P keep1 keep2 = Inr R
            \<and> map data (dict_values (record_data R)) = map data (dict_values (record_data P))
            \<and> dict_keys (record_data R) = map str_nat [0 ..< length (record_data P)]
            \<and> (\<forall>a \<in> set (dict_values (record_data R)). dtype a = [] \<and> shape a = [] \<and> stype a = [])"
  using indexed_arrays_values [of "[]" 0 "map data (dict_values (record_data P))"]
  by (simp add: roundtrip_def parametersrecord_to_parameters_result [OF assms]
        parameters_to_parametersrecord_result dict_values_def)

theorem roundtrip_preserves_blobs_witness:
  "distinct (dict_keys (record_data example_record))
   \<and> (\<exists>R. roundtrip example_record False True = Inr R
          \<and> map data (dict_values (record_data R)) = [[0, 0, 128, 63], [7, 9]])"
proof -
  have d: "distinct (dict_keys (record_data example_record))"
    by (simp add: example_record_def dict_keys_def)
  from roundtrip_preserves_blobs [OF d, of False True]
  obtain R where "roundtrip example_record False True = Inr R"
    and "map data (dict_values (record_data R)) = map data (dict_values (record_data example_record))"
    by blast
  then have "roundtrip example_record False True = Inr R
      \<and> map data (dict_values (record_data R)) = [[0, 0, 128, 63], [7, 9]]"
    by (simp add: example_record_def dict_values_def)
  then have "\<exists>R. roundtrip example_record False True = Inr R
      \<and> map data (dict_values (record_data R)) = [[0, 0, 128, 63], [7, 9]]"
    by (rule exI [of _ R])
  with d show ?thesis by (rule conjI)
qed

text \<open>
  The claim as written says that only dtype and shape are lost. On the example record, whose
  arrays both carry the stype \<open>numpy.ndarray\<close>, the round trip returns arrays with
  the empty stype.
\<close>

theorem roundtrip_stype_lost_counterexample:
  "roundtrip example_record True True
     = Inr \<lparr>record_data =
              [(''0'', \<lparr>dtype = [], shape = [], stype = [], data = [0, 0, 128, 63]\<rparr>),
               (''1'', \<lparr>dtype = [], shape = [], stype = [], data = [7, 9]\<rparr>)]\<rparr>
   \<and> map stype (dict_values (record_data example_record)) = [''numpy.ndarray'', ''numpy.ndarray'']"
  by (simp add: roundtrip_def parametersrecord_to_parameters_def parameters_to_parametersrecord_def
        example_record_def dict_keys_def dict_values_def list_index_def set_parameters_def
        str_nat_small upt_conv_Cons)

text \<open>
  Claim C9, as amended. For every ParametersRecord (with distinct keys) the conversion
  succeeds and returns Parameters whose tensors are the blobs of the record in insertion
  order and whose tensor\_type is the empty string, whatever the stype of the arrays:
  \<open>tensor_type\<close> is set when the object is created and not assigned again.
\<close>

theorem parametersrecord_to_parameters_tensor_type:
  assumes "distinct (dict_keys (record_data P))"
  shows "\<exists>ps P'. parametersrecord_to_parameters P keep_input = Inr (ps, P')
            \<and> tensor_type ps = []
            \<and> tensors ps = map data (dict_values (record_data P))"
  by (simp add: parametersrecord_to_parameters_result [OF assms])

theorem parametersrecord_to_parameters_tensor_type_witness:
  "distinct (dict_keys (record_data example_record))
   \<and> (\<exists>ps P'. parametersrecord_to_parameters example_record False = Inr (ps, P')
          \<and> tensor_type ps = [] \<and> tensors ps = [[0, 0, 128, 63], [7, 9]])"
proof -
  have d: "distinct (dict_keys (record_data example_record))"
    by (simp add: example_record_def dict_keys_def)
  from parametersrecord_to_parameters_tensor_type [OF d, of False]
  obtain ps P' where "parametersrecord_to_parameters example_record False = Inr (ps, P')"
    and "tensor_type ps = []"
    and "tensors ps = map data (dict_values (record_data example_record))"
    by blast
  then have "parametersrecord_to_parameters example_record False = Inr (ps, P')
      \<and> tensor_type ps = [] \<and> tensors ps = [[0, 0, 128, 63], [7, 9]]"
    by (simp add: example_record_def dict_values_def)
  then have "\<exists>ps P'. parametersrecord_to_parameters example_record False = Inr (ps, P')
      \<and> tensor_type ps = [] \<and> tensors ps = [[0, 0, 128, 63], [7, 9]]"
    by (intro exI [of _ ps] exI [of _ P'])
  with d show ?thesis by (rule conjI)
qed

text \<open>
  The claim as written fails on the example record: its first array has the stype
  \<open>numpy.ndarray\<close>, and the Parameters returned have the empty tensor\_type.
\<close>

theorem parametersrecord_to_parameters_tensor_type_counterexample:
  "parametersrecord_to_parameters example_record True
     = Inr (\<lparr>tensors = [[0, 0, 128, 63], [7, 9]], tensor_type = []\<rparr>, example_record)
   \<and> map stype (dict_values (record_data example_record)) ! 0 = ''numpy.ndarray''"
  by (simp add: parametersrecord_to_parameters_def example_record_def dict_keys_def
        dict_values_def)

section \<open>The differential-privacy wrapper\<close>


lemma clip_loop_keeps_list: "fst (clip_loop xs c (acu, v)) = acu"
  by (induction xs arbitrary: v) simp_all

lemma sanitized_clients_params_no_clipping:
  "sanitized_clients_params lib (w\<lparr>clipping_norm := c\<rparr>) results st
     = sanitized_clients_params lib w results st"
  by (simp add: sanitized_clients_params_def clip_loop_keeps_list compute_model_updates_def
        update_clients_params_def Let_def cong: sum.case_cong)

lemma map_err_length: "map_err f xs = Inr ys \<Longrightarrow> length ys = length xs"
  by (induction xs arbitrary: ys) (auto split: sum.splits)

lemma sanitized_clients_params_length:
  assumes "sanitized_clients_params lib w results st = Inr ps"
  shows "length ps = length results"
proof -
  let ?cps = "map (\<lambda>(_, ref). parameters_to_ndarrays lib (parameters (st ref))) results"
  from assms obtain updates where u: "compute_model_updates w ?cps = Inr updates"
    and m: "map_err (\<lambda>(client_param, client_update).
                       update_clients_params w client_param client_update)
              (zip ?cps updates) = Inr ps"
    by (auto simp: sanitized_clients_params_def clip_loop_keeps_list Let_def split: sum.splits)
  from u have "length updates = length results"
    by (auto simp: compute_model_updates_def dest: map_err_length)
  with map_err_length [OF m] show ?thesis by simp
qed

lemma write_back_frame:
  "ref \<notin> snd ` set results \<Longrightarrow> write_back lib results ps st ref = st ref"
  by (induction lib results ps st rule: write_back.induct) auto

lemma write_back_distinct:
  "distinct (map snd results) \<Longrightarrow> length ps = length results \<Longrightarrow> i < length results \<Longrightarrow>
   write_back lib results ps st (snd (results ! i))
     = (st (snd (results ! i)))\<lparr>parameters := ndarrays_to_parameters lib (ps ! i)\<rparr>"
proof (induction lib results ps st arbitrary: i rule: write_back.induct)
  case (1 lib cp ref results params clients_params st)
  show ?case
  proof (cases i)
    case 0
    with "1.prems" show ?thesis by (simp add: write_back_frame)
  next
    case (Suc j)
    let ?st = "st(ref := (st ref)\<lparr>parameters := ndarrays_to_parameters lib params\<rparr>)"
    from Suc "1.prems" have neq: "snd (results ! j) \<noteq> ref" by auto
    from Suc "1.prems" have "distinct (map snd results)"
      and "length clients_params = length results" and "j < length results"
      by simp_all
    then have "write_back lib results clients_params ?st (snd (results ! j))
        = (?st (snd (results ! j)))\<lparr>parameters := ndarrays_to_parameters lib (clients_params ! j)\<rparr>"
      by (rule "1.IH")
    with neq Suc show ?thesis by simp
  qed
qed simp_all

lemma example_sanitized:
  "sanitized_clients_params example_library example_wrapper [(''c0'', 0)] example_store = Inr [[[1]]]"
  by (simp add: sanitized_clients_params_def compute_model_updates_def example_library_def
        example_wrapper_def example_store_def parameters_to_ndarrays_def np_subtract_def
        np_binop_def update_clients_params_def np_add_def clip_loop_keeps_list)


lemma example_aggregate_fit:
  "aggregate_fit example_library example_wrapper 1 [(''c0'', 0)] [] example_store
     = Inr \<lparr>returned = (Some \<lparr>tensors = [[1]], tensor_type = ''numpy.ndarray''\<rparr>, []),
            store_after = write_back example_library [(''c0'', 0)] [[[1]]] example_store,
            delegated = [\<lparr>call_round = 1, call_results = [(''c0'', 0)], call_failures = [],
                          call_store = write_back example_library [(''c0'', 0)] [[[1]]] example_store\<rparr>]\<rparr>"
  by (simp add: aggregate_fit_def example_sanitized)
     (simp add: example_wrapper_def first_result_strategy_def compute_stdv_def
        example_library_def ndarrays_to_parameters_def Let_def)

text \<open>
  Claim C1, at its failing input. With current parameters \<open>[[0]]\<close>, clipping norm one half
  and one client returning \<open>[[1]]\<close>, the update is \<open>[[1]]\<close> with L2 norm 1, and
  clipping it gives \<open>[[1/2]]\<close>; the claim has \<open>[[1/2]]\<close> handed to the inner strategy.
  \<open>aggregate_fit\<close> hands over \<open>[[1]]\<close>: the clipping loop binds the clipped list to its
  loop variable only, so \<open>all_clients_updates\<close> stays unclipped
  (\<open>clip_loop_keeps_list\<close>), and the clipping norm has no influence on what is handed
  over (\<open>sanitized_clients_params_no_clipping\<close>).
\<close>

theorem aggregate_fit_example_unclipped:
  "map_sum id (handed_over example_library)
      (aggregate_fit example_library example_wrapper 1 [(''c0'', 0)] [] example_store)
     = Inr [[[[1]]]]
   \<and> current_round_params example_wrapper = [[0]]
   \<and> clipping_norm example_wrapper = 1 / 2
   \<and> get_norm [[1 - 0]] = 1
   \<and> clip_inputs [[1 - 0]] (1 / 2) = [[1 / 2]]"
  by (simp add: example_aggregate_fit handed_over_def)
     (simp add: example_wrapper_def example_library_def parameters_to_ndarrays_def
        ndarrays_to_parameters_def get_norm_def clip_inputs_def)

text \<open>
  Claim C4, as amended. When \<open>failures\<close> is not empty, \<open>aggregate_fit\<close> returns
  \<open>(None, {})\<close> at once: the inner strategy is not called and the store is untouched. When
  \<open>failures\<close> is empty, the rebuilding of the clients' parameters raises nothing and
  \<open>num_sampled_clients\<close> is positive (as \<open>__init__\<close> checks), the wrapper calls the
  inner strategy's \<open>aggregate_fit\<close> once, with the round, the results, the empty failures
  and the store after the write-back; when that call yields parameters, they are passed to
  \<open>add_noise_to_params\<close> with the standard deviation
  \<open>noise_multiplier * clipping_norm / num_sampled_clients\<close>, and when it yields none, none
  is returned; the metrics are the inner strategy's.
\<close>

theorem aggregate_fit_delegation:
  "(failures \<noteq> [] \<longrightarrow>
      aggregate_fit lib w r results failures st
        = Inr \<lparr>returned = (None, []), store_after = st, delegated = []\<rparr>)
   \<and> (failures = [] \<longrightarrow> sanitized_clients_params lib w results st = Inr ps \<longrightarrow>
        0 < num_sampled_clients w \<longrightarrow>
        (\<exists>out. aggregate_fit lib w r results failures st = Inr out
           \<and> store_after out = write_back lib results ps st
           \<and> delegated out = [\<lparr>call_round = r, call_results = results, call_failures = [],
                                 call_store = store_after out\<rparr>]
           \<and> returned out =
               (case strategy w r results [] (store_after out) of
                  (None, ms) \<Rightarrow> (None, ms)
                | (Some agg, ms) \<Rightarrow>
                    (Some (add_noise_to_params lib agg
                             (noise_multiplier w * clipping_norm w
                                / real_of_int (num_sampled_clients w))), ms))))"
  by (auto simp: aggregate_fit_def compute_stdv_def Let_def split: prod.splits option.splits)

theorem aggregate_fit_delegation_witness:
  "aggregate_fit example_library example_wrapper 1 [(''c0'', 0)] [Inr ActorError] example_store
      = Inr \<lparr>returned = (None, []), store_after = example_store, delegated = []\<rparr>
   \<and> (\<exists>out. aggregate_fit example_library example_wrapper 1 [(''c0'', 0)] [] example_store = Inr out
         \<and> length (delegated out) = 1
         \<and> returned out = (Some \<lparr>tensors = [[1]], tensor_type = ''numpy.ndarray''\<rparr>, []))"
proof -
  have n: "0 < num_sampled_clients example_wrapper"
    by (simp add: example_wrapper_def)
  from aggregate_fit_delegation
         [of "[Inr ActorError]" example_library example_wrapper 1 "[(''c0'', 0)]" example_store]
  have a: "aggregate_fit example_library example_wrapper 1 [(''c0'', 0)] [Inr ActorError] example_store
      = Inr \<lparr>returned = (None, []), store_after = example_store, delegated = []\<rparr>"
    by simp
  from aggregate_fit_delegation
         [of "[]" example_library example_wrapper 1 "[(''c0'', 0)]" example_store "[[[1]]]"]
       example_sanitized n
  obtain out where o: "aggregate_fit example_library example_wrapper 1 [(''c0'', 0)] [] example_store = Inr out"
    and d: "delegated out = [\<lparr>call_round = 1, call_results = [(''c0'', 0)], call_failures = [],
                                 call_store = store_after out\<rparr>]"
    by auto
  from o have "returned out = (Some \<lparr>tensors = [[1]], tensor_type = ''numpy.ndarray''\<rparr>, [])"
    by (auto simp: example_aggregate_fit)
  with o d have "aggregate_fit example_library example_wrapper 1 [(''c0'', 0)] [] example_store = Inr out
         \<and> length (delegated out) = 1
         \<and> returned out = (Some \<lparr>tensors = [[1]], tensor_type = ''numpy.ndarray''\<rparr>, [])"
    by simp
  then have "\<exists>out. aggregate_fit example_library example_wrapper 1 [(''c0'', 0)] [] example_store = Inr out
         \<and> length (delegated out) = 1
         \<and> returned out = (Some \<lparr>tensors = [[1]], tensor_type = ''numpy.ndarray''\<rparr>, [])"
    by (rule exI [of _ out])
  with a show ?thesis by (rule conjI)
qed

text \<open>
  The claim as written has the wrapper delegate also when \<open>failures\<close> is not empty. With
  one failure in the list the wrapper makes no call and returns \<open>None\<close>, although the
  inner strategy, called on the same arguments, yields parameters.
\<close>

theorem aggregate_fit_failures_counterexample:
  "aggregate_fit example_library example_wrapper 1 [(''c0'', 0)] [Inr ActorError] example_store
      = Inr \<lparr>returned = (None, []), store_after = example_store, delegated = []\<rparr>
   \<and> fst (strategy example_wrapper 1 [(''c0'', 0)] [Inr ActorError] example_store)
      = Some \<lparr>tensors = [[1]], tensor_type = ''client''\<rparr>"
  by (simp add: aggregate_fit_def example_wrapper_def first_result_strategy_def example_store_def)

lemma write_back_overwrites:
  "length ps = length results \<Longrightarrow> ref \<in> snd ` set results \<Longrightarrow>
   \<exists>i < length results. snd (results ! i) = ref
      \<and> write_back lib results ps st ref
          = (st ref)\<lparr>parameters := ndarrays_to_parameters lib (ps ! i)\<rparr>"
proof (induction lib results ps st rule: write_back.induct)
  case (1 lib cp r results params clients_params st)
  let ?st = "st(r := (st r)\<lparr>parameters := ndarrays_to_parameters lib params\<rparr>)"
  show ?case
  proof (cases "ref \<in> snd ` set results")
    case True
    from "1.prems" have "length clients_params = length results" by simp
    from "1.IH" [OF this True] obtain i where i: "i < length results"
      and r: "snd (results ! i) = ref"
      and w: "write_back lib results clients_params ?st ref
                = (?st ref)\<lparr>parameters := ndarrays_to_parameters lib (clients_params ! i)\<rparr>"
      by blast
    have "(?st ref)\<lparr>parameters := ndarrays_to_parameters lib (clients_params ! i)\<rparr>
            = (st ref)\<lparr>parameters := ndarrays_to_parameters lib (clients_params ! i)\<rparr>"
      by simp
    with w have "write_back lib ((cp, r) # results) (params # clients_params) st ref
        = (st ref)\<lparr>parameters := ndarrays_to_parameters lib ((params # clients_params) ! Suc i)\<rparr>"
      by simp
    moreover from i r have "Suc i < length ((cp, r) # results)"
      and "snd (((cp, r) # results) ! Suc i) = ref"
      by simp_all
    ultimately show ?thesis by blast
  next
    case False
    with "1.prems" have eq: "ref = r" by auto
    from False have "write_back lib results clients_params ?st ref = ?st ref"
      by (rule write_back_frame)
    with eq have "write_back lib ((cp, r) # results) (params # clients_params) st ref
        = (st ref)\<lparr>parameters := ndarrays_to_parameters lib ((params # clients_params) ! 0)\<rparr>"
      by simp
    moreover from eq have "0 < length ((cp, r) # results)" and "snd (((cp, r) # results) ! 0) = ref"
      by simp_all
    ultimately show ?thesis by blast
  qed
qed simp_all

text \<open>
  Claim C10. For every call of \<open>aggregate_fit\<close> with an empty failures list that returns:
  every \<open>FitRes\<close> referred to in \<open>results\<close> has its parameters overwritten in the store
  with the encoding of rebuilt client parameters (those of its position in \<open>results\<close>;
  when results refer to distinct objects, the \<open>i\<close>-th object gets the \<open>i\<close>-th rebuilt
  parameters), its other fields and every object outside \<open>results\<close> are as before, and the
  one call to the inner strategy sees the store with these writes done. The store after the
  call is what the caller holds, so the caller's objects are modified.
\<close>

theorem aggregate_fit_overwrites_results:
  assumes "aggregate_fit lib w r results [] st = Inr out"
  shows "\<exists>ps. sanitized_clients_params lib w results st = Inr ps
            \<and> length ps = length results
            \<and> (\<forall>ref \<in> snd ` set results.
                  \<exists>i < length results. snd (results ! i) = ref
                    \<and> store_after out ref
                        = (st ref)\<lparr>parameters := ndarrays_to_parameters lib (ps ! i)\<rparr>)
            \<and> (distinct (map snd results) \<longrightarrow>
                  (\<forall>i < length results.
                     store_after out (snd (results ! i))
                       = (st (snd (results ! i)))
                           \<lparr>parameters := ndarrays_to_parameters lib (ps ! i)\<rparr>))
            \<and> (\<forall>ref. ref \<notin> snd ` set results \<longrightarrow> store_after out ref = st ref)
            \<and> delegated out = [\<lparr>call_round = r, call_results = results, call_failures = [],
                                  call_store = store_after out\<rparr>]"
proof -
  from assms obtain ps where ps: "sanitized_clients_params lib w results st = Inr ps"
    by (auto simp: aggregate_fit_def split: sum.splits)
  from sanitized_clients_params_length [OF ps] have len: "length ps = length results" .
  from assms ps have st': "store_after out = write_back lib results ps st"
    and del: "delegated out = [\<lparr>call_round = r, call_results = results, call_failures = [],
                                  call_store = store_after out\<rparr>]"
    by (auto simp: aggregate_fit_def Let_def split: prod.splits option.splits sum.splits)
  have a: "\<forall>ref \<in> snd ` set results.
      \<exists>i < length results. snd (results ! i) = ref
        \<and> store_after out ref = (st ref)\<lparr>parameters := ndarrays_to_parameters lib (ps ! i)\<rparr>"
    unfolding st' using write_back_overwrites [OF len] by blast
  have b: "distinct (map snd results) \<longrightarrow>
      (\<forall>i < length results.
         store_after out (snd (results ! i))
           = (st (snd (results ! i)))\<lparr>parameters := ndarrays_to_parameters lib (ps ! i)\<rparr>)"
    unfolding st' using len by (simp add: write_back_distinct)
  have c: "\<forall>ref. ref \<notin> snd ` set results \<longrightarrow> store_after out ref = st ref"
    unfolding st' by (simp add: write_back_frame)
  from ps len a b c del show ?thesis by blast
qed

theorem aggregate_fit_overwrites_results_witness:
  "\<exists>out. aggregate_fit example_library example_wrapper 1 [(''c0'', 0)] [] example_store = Inr out
      \<and> distinct (map snd [(''c0'', 0 :: nat)])
      \<and> parameters (example_store 0) = \<lparr>tensors = [[1]], tensor_type = ''client''\<rparr>
      \<and> parameters (store_after out 0) = \<lparr>tensors = [[1]], tensor_type = ''numpy.ndarray''\<rparr>"
proof -
  obtain out where o: "aggregate_fit example_library example_wrapper 1 [(''c0'', 0)] [] example_store = Inr out"
    by (simp add: example_aggregate_fit)
  have d: "distinct (map snd [(''c0'', 0 :: nat)])" by simp
  from aggregate_fit_overwrites_results [OF o] example_sanitized d
  have "store_after out 0
      = (example_store 0)\<lparr>parameters := ndarrays_to_parameters example_library [[1]]\<rparr>"
    by auto
  then have "parameters (store_after out 0) = \<lparr>tensors = [[1]], tensor_type = ''numpy.ndarray''\<rparr>"
    by (simp add: ndarrays_to_parameters_def example_library_def)
  moreover have "parameters (example_store 0) = \<lparr>tensors = [[1]], tensor_type = ''client''\<rparr>"
    by (simp add: example_store_def)
  ultimately show ?thesis using o d by blast
qed

section \<open>The worker of the virtual client engine\<close>


lemma dict_get_set: "dict_get (dict_set d k v) k = Inr v"
  by (induction d) auto

lemma retrieve_registered:
  "\<exists>ctx. retrieve_context (register_context e ns rid) rid = Inr ctx"
  by (cases "dict_get ns rid") (simp_all add: retrieve_context_def register_context_def dict_get_set)

lemma worker_after_successes:
  "worker env pre ws = (Waiting, [], ws1) \<Longrightarrow> worker env (pre @ q) ws = worker env q ws1"
proof (induction pre arbitrary: ws)
  case Nil
  then show ?case by simp
next
  case (Cons t pre)
  obtain r ws' where p: "process_task env ws t = (r, ws')" by (cases "process_task env ws t")
  show ?case
  proof (cases r)
    case None
    with p Cons.prems have "worker env pre ws' = (Waiting, [], ws1)" by simp
    from Cons.IH [OF this] p None show ?thesis by simp
  next
    case (Some ex)
    with p Cons.prems show ?thesis by simp
  qed
qed

lemma worker_Exited_cause:
  "worker env q ws = (Exited, rest, ws') \<Longrightarrow>
   \<exists>pre t ex ws1 ws2. q = pre @ t # rest
      \<and> worker env pre ws = (Waiting, [], ws1)
      \<and> process_task env ws1 t = (Some ex, ws2)
      \<and> ws' = ws2\<lparr>error_log := error_log ws2 @ [LogException ex, LogTraceback ex]\<rparr>"
proof (induction q arbitrary: ws)
  case Nil
  then show ?case by simp
next
  case (Cons t q)
  obtain r ws0 where p: "process_task env ws t = (r, ws0)" by (cases "process_task env ws t")
  show ?case
  proof (cases r)
    case None
    with p Cons.prems have "worker env q ws0 = (Exited, rest, ws')" by simp
    from Cons.IH [OF this] obtain pre u ex ws1 ws2 where
      q: "q = pre @ u # rest" and w: "worker env pre ws0 = (Waiting, [], ws1)"
      and f: "process_task env ws1 u = (Some ex, ws2)"
      and s: "ws' = ws2\<lparr>error_log := error_log ws2 @ [LogException ex, LogTraceback ex]\<rparr>"
      by blast
    from p None w have "worker env (t # pre) ws = (Waiting, [], ws1)" by simp
    moreover from q have "t # q = (t # pre) @ u # rest" by simp
    ultimately show ?thesis using f s by blast
  next
    case (Some ex)
    with p Cons.prems have "rest = q"
      and "ws' = ws0\<lparr>error_log := error_log ws0 @ [LogException ex, LogTraceback ex]\<rparr>"
      by simp_all
    moreover have "worker env [] ws = (Waiting, [], ws)" by simp
    moreover have "t # q = [] @ t # q" by simp
    ultimately show ?thesis using p Some by blast
  qed
qed

text \<open>
  Claim C3, as amended. The worker leaves its loop on the first instruction whose processing
  raises an exception: when the instructions \<open>pre\<close> are processed without exception and
  the next instruction \<open>t\<close> raises \<open>ex\<close>, the worker logs the exception and the
  traceback and ends; the instructions \<open>post\<close> behind \<open>t\<close> stay in the queue and are
  not processed by this worker. The loop is left in no other way: a run that ends
  \<open>Exited\<close> has processed a prefix of the queue without exception and has met an
  exception at the instruction after it.
\<close>

theorem worker_exits_on_exception:
  "(worker env pre ws = (Waiting, [], ws1) \<longrightarrow> process_task env ws1 t = (Some ex, ws2) \<longrightarrow>
      worker env (pre @ t # post) ws
        = (Exited, post, ws2\<lparr>error_log := error_log ws2 @ [LogException ex, LogTraceback ex]\<rparr>))
   \<and> (worker env q ws = (Exited, rest, ws') \<longrightarrow>
        (\<exists>pre' t' ex' ws1' ws2'. q = pre' @ t' # rest
            \<and> worker env pre' ws = (Waiting, [], ws1')
            \<and> process_task env ws1' t' = (Some ex', ws2')
            \<and> ws' = ws2'\<lparr>error_log := error_log ws2' @ [LogException ex', LogTraceback ex']\<rparr>))"
proof (intro conjI impI)
  assume "worker env pre ws = (Waiting, [], ws1)" and "process_task env ws1 t = (Some ex, ws2)"
  then show "worker env (pre @ t # post) ws
        = (Exited, post, ws2\<lparr>error_log := error_log ws2 @ [LogException ex, LogTraceback ex]\<rparr>)"
    by (simp add: worker_after_successes)
next
  assume "worker env q ws = (Exited, rest, ws')"
  then show "\<exists>pre' t' ex' ws1' ws2'. q = pre' @ t' # rest
            \<and> worker env pre' ws = (Waiting, [], ws1')
            \<and> process_task env ws1' t' = (Some ex', ws2')
            \<and> ws' = ws2'\<lparr>error_log := error_log ws2' @ [LogException ex', LogTraceback ex']\<rparr>"
    by (rule worker_Exited_cause)
qed

lemma str_nat_7_8: "str_nat 7 = ''7''" "str_nat 8 = ''8''"
  by code_simp+

lemma example_process_fit:
  "process_task example_env example_worker_state (example_task_ins ''a'' 7 ''fit'')
     = (Some ActorError,
        example_worker_state
          \<lparr>node_states := [(7, [(5, [])]), (8, [])],
           submitted := [(taskins_to_message (\<lambda>p. p) (example_task_ins ''a'' 7 ''fit'') 0,
                          ''7'', [])]\<rparr>)"
  by (simp add: process_task_def example_env_def example_worker_state_def example_task_ins_def
        register_context_def retrieve_context_def taskins_to_message_def str_int_def Let_def
        str_nat_7_8)


theorem worker_exits_on_exception_witness:
  "worker example_env [] example_worker_state = (Waiting, [], example_worker_state)
   \<and> fst (process_task example_env example_worker_state (example_task_ins ''a'' 7 ''fit''))
       = Some ActorError
   \<and> fst (worker example_env example_queue example_worker_state) = Exited
   \<and> fst (snd (worker example_env example_queue example_worker_state))
       = [example_task_ins ''b'' 8 ''evaluate'']
   \<and> (\<exists>pre t ex ws1 ws2. example_queue = pre @ t # [example_task_ins ''b'' 8 ''evaluate'']
          \<and> worker example_env pre example_worker_state = (Waiting, [], ws1)
          \<and> process_task example_env ws1 t = (Some ex, ws2))"
proof -
  let ?a = "example_task_ins ''a'' 7 ''fit''" and ?b = "example_task_ins ''b'' 8 ''evaluate''"
  obtain ws2 where p: "process_task example_env example_worker_state ?a = (Some ActorError, ws2)"
    by (simp add: example_process_fit)
  have w0: "worker example_env [] example_worker_state = (Waiting, [], example_worker_state)"
    by simp
  let ?ws' = "ws2\<lparr>error_log := error_log ws2 @ [LogException ActorError, LogTraceback ActorError]\<rparr>"
  from worker_exits_on_exception
         [of example_env "[]" example_worker_state example_worker_state ?a ActorError ws2 "[?b]"]
       w0 p
  have run: "worker example_env example_queue example_worker_state = (Exited, [?b], ?ws')"
    by (simp add: example_queue_def)
  from worker_exits_on_exception
         [of example_env "[]" example_worker_state example_worker_state ?a ActorError ws2 "[?b]"
             example_queue "[?b]" ?ws']
       run
  have "\<exists>pre t ex ws1 ws2. example_queue = pre @ t # [?b]
          \<and> worker example_env pre example_worker_state = (Waiting, [], ws1)
          \<and> process_task example_env ws1 t = (Some ex, ws2)"
    by blast
  with w0 p run show ?thesis by simp
qed

text \<open>
  The claim as written has the worker go on after a failure. With a fit instruction on which
  the actor raises, followed by an evaluate instruction, the worker ends at the first one: the
  second instruction is still in the queue, and the store of task results is empty.
\<close>

theorem worker_breaks_counterexample:
  "fst (worker example_env example_queue example_worker_state) = Exited
   \<and> fst (snd (worker example_env example_queue example_worker_state))
       = [example_task_ins ''b'' 8 ''evaluate'']
   \<and> task_res_store (snd (snd (worker example_env example_queue example_worker_state))) = []
   \<and> error_log (snd (snd (worker example_env example_queue example_worker_state)))
       = [LogException ActorError, LogTraceback ActorError]"
  by (simp add: example_queue_def example_process_fit) (simp add: example_worker_state_def)

text \<open>
  Claim C7. For every \<open>TaskIns\<close> whose consumer node is a key of the node-to-partition
  mapping, with partition index \<open>p\<close>: the message built by \<open>taskins_to_message\<close> has
  the metadata run id, group id, ttl and message type of the instruction, the task id as
  message id, and \<open>p\<close> as node id. When an actor is available and the node has a node
  state, this message is what the worker submits to the pool, together with the node id as a
  string and the node's context.
\<close>

theorem worker_message_carries_partition:
  assumes "dict_get (nodes_mapping env) (nd_node_id (t_consumer (ti_task t))) = Inr p"
  shows "metadata (taskins_to_message (recordset_from_proto env) t p)
           = \<lparr>run_id = ti_run_id t, message_id = ti_task_id t, group_id = ti_group_id t,
              node_id = p, ttl = t_ttl (ti_task t), message_type = t_task_type (ti_task t)\<rparr>
         \<and> (is_actor_available env \<longrightarrow>
              (\<exists>ns. dict_get (node_states ws) (nd_node_id (t_consumer (ti_task t))) = Inr ns) \<longrightarrow>
              (\<exists>ctx. submitted (snd (process_task env ws t))
                 = submitted ws @ [(taskins_to_message (recordset_from_proto env) t p,
                                    str_int (nd_node_id (t_consumer (ti_task t))), ctx)]))"
proof (intro conjI impI)
  show "metadata (taskins_to_message (recordset_from_proto env) t p)
           = \<lparr>run_id = ti_run_id t, message_id = ti_task_id t, group_id = ti_group_id t,
              node_id = p, ttl = t_ttl (ti_task t), message_type = t_task_type (ti_task t)\<rparr>"
    by (simp add: taskins_to_message_def)
next
  let ?nid = "nd_node_id (t_consumer (ti_task t))"
  assume av: "is_actor_available env" and "\<exists>ns. dict_get (node_states ws) ?nid = Inr ns"
  then obtain ns where ns: "dict_get (node_states ws) ?nid = Inr ns" by blast
  obtain ctx where ctx:
    "retrieve_context (register_context (empty_recordset env) ns (ti_run_id t)) (ti_run_id t) = Inr ctx"
    using retrieve_registered [of "empty_recordset env" ns "ti_run_id t"] by (elim exE)
  let ?m = "taskins_to_message (recordset_from_proto env) t p"
  have "submitted (snd (process_task env ws t)) = submitted ws @ [(?m, str_int ?nid, ctx)]"
    using av ns ctx assms
    by (cases "actor_run env ?m (str_int ?nid) ctx")
       (auto simp: process_task_def Let_def)
  then show "\<exists>ctx. submitted (snd (process_task env ws t)) = submitted ws @ [(?m, str_int ?nid, ctx)]"
    by (rule exI)
qed

theorem worker_message_carries_partition_witness:
  "dict_get (nodes_mapping example_env) 8 = Inr 1
   \<and> node_id (metadata (taskins_to_message (recordset_from_proto example_env)
                           (example_task_ins ''b'' 8 ''evaluate'') 1)) = 1
   \<and> (\<exists>ctx. submitted (snd (process_task example_env example_worker_state
                                  (example_task_ins ''b'' 8 ''evaluate'')))
         = [(taskins_to_message (recordset_from_proto example_env)
               (example_task_ins ''b'' 8 ''evaluate'') 1, ''8'', ctx)])"
proof -
  let ?b = "example_task_ins ''b'' 8 ''evaluate''"
  have nid: "nd_node_id (t_consumer (ti_task ?b)) = 8"
    by (simp add: example_task_ins_def)
  have m: "dict_get (nodes_mapping example_env) (nd_node_id (t_consumer (ti_task ?b))) = Inr 1"
    by (simp add: nid) (simp add: example_env_def)
  have av: "is_actor_available example_env"
    by (simp add: example_env_def)
  have ns: "\<exists>ns. dict_get (node_states example_worker_state) (nd_node_id (t_consumer (ti_task ?b))) = Inr ns"
    by (simp add: nid) (simp add: example_worker_state_def)
  from worker_message_carries_partition [OF m, of example_worker_state] av ns
  have "node_id (metadata (taskins_to_message (recordset_from_proto example_env) ?b 1)) = 1"
    and "\<exists>ctx. submitted (snd (process_task example_env example_worker_state ?b))
         = submitted example_worker_state
           @ [(taskins_to_message (recordset_from_proto example_env) ?b 1,
               str_int (nd_node_id (t_consumer (ti_task ?b))), ctx)]"
    by simp_all
  moreover have "submitted example_worker_state = []"
    by (simp add: example_worker_state_def)
  moreover have "str_int 8 = ''8''"
    by (simp add: str_int_def str_nat_7_8)
  ultimately show ?thesis using m nid by simp
qed

section \<open>The Dirichlet partitioner\<close>


lemma example_partitioner_init:
  "partitioner_init 2 (AlphaFloat (1 / 2)) ''labels'' (Some 0) False True 42 [''cat'', ''cat'']
     = Inr example_partitioner"
  by (simp add: partitioner_init_def initialize_alpha_def example_partitioner_def numeral_2_eq_2)

lemma np_split_two: "np_split [0, Suc 0] [2] = [[0, Suc 0], []]"
  "np_split [0, Suc 0] [0] = [[], [0, Suc 0]]"
  by (simp_all add: np_split_def py_slice_def slice_bound_def upt_conv_Cons)

lemma example_classes:
  "unique (dataset example_partitioner) = [''cat'']"
  "class_indices [''cat'', ''cat''] ''cat'' = [0, Suc 0]"
  by (simp_all add: unique_def example_partitioner_def class_indices_def upt_conv_Cons)

lemma example_first_call_value:
  "example_first_call
     = Some (Inr ([''cat'', ''cat''],
                  example_partitioner
                    \<lparr>unique_classes := [''cat''], num_unique_classes := Some 1,
                     avg_num_of_samples_per_node := 1,
                     node_id_to_indices := [(0, [0, 1]), (1, [])],
                     node_id_to_indices_determined := True\<rparr>,
                  \<lambda>n. example_rng (Suc n)))"
  unfolding example_first_call_def load_partition_def determine_node_id_to_indices_if_needed_def
  by (simp add: example_classes Let_def)
     (simp add: example_partitioner_def example_classes dirichlet_def example_rng_def
        numeral_2_eq_2 upt_conv_Cons cumsum_def astype_int_def dict_values_def np_split_two
        select_def)


lemma example_second_call_value:
  "assignment_after example_second_call = Some [(0, []), (1, [0, 1])]"
  "map_option (map_sum id fst) example_second_call = Some (Inr [])"
  unfolding example_second_call_def example_first_call_value load_partition_def
    determine_node_id_to_indices_if_needed_def assignment_after_def
  by (simp_all add: example_classes Let_def partitioner_after_def rng_after_def)
     (simp_all add: example_partitioner_def example_classes dirichlet_def example_rng_def
        numeral_2_eq_2 upt_conv_Cons cumsum_def astype_int_def dict_values_def np_split_two
        select_def)

lemma example_twin_call_value:
  "assignment_after example_twin_call = Some [(0, []), (1, [0, 1])]"
  unfolding example_twin_call_def example_first_call_value load_partition_def
    determine_node_id_to_indices_if_needed_def assignment_after_def
  by (simp add: example_classes Let_def partitioner_after_def rng_after_def)
     (simp add: example_partitioner_def example_classes dirichlet_def example_rng_def
        numeral_2_eq_2 upt_conv_Cons cumsum_def astype_int_def dict_values_def np_split_two
        select_def)

lemma classes_loop_reads:
  assumes "num_partitions p = num_partitions q" and "alpha p = alpha q"
    and "dataset p = dataset q" and "self_balancing p = self_balancing q"
    and "avg_num_of_samples_per_node p = avg_num_of_samples_per_node q"
  shows "classes_loop p ks st = classes_loop q ks st"
proof (induction ks arbitrary: st)
  case Nil
  then show ?case by simp
next
  case (Cons k ks)
  obtain n2i g where st: "st = (n2i, g)" by (cases st)
  show ?case
    unfolding st
    by (simp add: Cons.IH assms Let_def split: prod.splits sum.splits)
qed

lemma sampling_loop_reads:
  assumes "num_partitions p = num_partitions q" and "alpha p = alpha q"
    and "dataset p = dataset q" and "self_balancing p = self_balancing q"
    and "avg_num_of_samples_per_node p = avg_num_of_samples_per_node q"
    and "unique_classes p = unique_classes q"
    and "min_partition_size p = min_partition_size q"
  shows "sampling_loop fuel p g = sampling_loop fuel q g"
proof (induction fuel arbitrary: g)
  case 0
  then show ?case by simp
next
  case (Suc fuel)
  have "classes_loop p ks st = classes_loop q ks st" for ks st
    using assms(1-5) by (rule classes_loop_reads)
  then show ?case
    by (simp add: Suc.IH assms(1,6,7) split: sum.splits prod.splits)
qed

lemma load_partition_ignores_seed:
  "assignment_after (load_partition fuel (p\<lparr>seed := s\<rparr>) g nid)
     = assignment_after (load_partition fuel p g nid)"
proof -
  have "sampling_loop fuel
          (p\<lparr>seed := s, unique_classes := u, num_unique_classes := c,
               avg_num_of_samples_per_node := a\<rparr>) g
        = sampling_loop fuel
          (p\<lparr>unique_classes := u, num_unique_classes := c,
               avg_num_of_samples_per_node := a\<rparr>) g" for u c a
    by (rule sampling_loop_reads) simp_all
  then show ?thesis
    by (simp add: load_partition_def determine_node_id_to_indices_if_needed_def Let_def
          assignment_after_def split: option.splits sum.splits prod.splits)
qed

text \<open>
  Claim C2, at its failing input. On the example partitioner the first call of
  \<open>load_partition(0)\<close> computes the assignment \<open>{0: [0, 1], 1: []}\<close>, returns both
  rows and sets \<open>_node_id_to_indices_determined\<close>. The second call on the same object
  computes the assignment again, from the next sample of the generator, replaces it by
  \<open>{0: [], 1: [0, 1]}\<close> and returns no row: the assignment is neither computed once nor
  unchanged afterwards.
\<close>

theorem load_partition_recomputes_assignment:
  "assignment_after example_first_call = Some [(0, [0, 1]), (1, [])]
   \<and> map_option (map_sum id fst) example_first_call = Some (Inr [''cat'', ''cat''])
   \<and> node_id_to_indices_determined (partitioner_after example_first_call example_partitioner)
   \<and> assignment_after example_second_call = Some [(0, []), (1, [0, 1])]
   \<and> map_option (map_sum id fst) example_second_call = Some (Inr [])"
  by (simp add: example_second_call_value)
     (simp add: example_first_call_value assignment_after_def partitioner_after_def)

text \<open>
  Claim C6, at its failing input. Two partitioners built by \<open>__init__\<close> with the same
  dataset, seed 42, alpha and flags: the first call of \<open>load_partition\<close> on the one
  gives \<open>{0: [0, 1], 1: []}\<close>, and the first call on the other, made after it, gives
  \<open>{0: [], 1: [0, 1]}\<close>. The assignment follows the state of NumPy's global generator;
  the seed is stored and not read (\<open>load_partition_ignores_seed\<close>).
\<close>

theorem same_arguments_different_assignment:
  "partitioner_init 2 (AlphaFloat (1 / 2)) ''labels'' (Some 0) False True 42 [''cat'', ''cat'']
     = Inr example_partitioner
   \<and> assignment_after example_first_call = Some [(0, [0, 1]), (1, [])]
   \<and> assignment_after example_twin_call = Some [(0, []), (1, [0, 1])]"
  by (simp add: example_partitioner_init example_twin_call_value)
     (simp add: example_first_call_value assignment_after_def)


end
